theory Spec2Isabelle
  imports Main
begin

section \<open>Values and request options\<close>

text \<open>
  The values that travel through the request maker (query, body, response, option
  values) are JavaScript values. They are modelled as finite trees; numbers are integers,
  and a BigInt is a value of its own, since \<open>JSON.stringify\<close> throws on it. A cyclic
  object, on which \<open>JSON.stringify\<close> throws as well, is not a tree and has no
  representation here. Nested objects are never mutated by the request maker, so they
  are values here; only the option objects themselves (\<open>baseOptions\<close>,
  \<open>requestOptions\<close>) live in the store.
\<close>

datatype jsval =
    JUndefined
  | JNull
  | JBool bool
  | JNum int
  | JBigInt int
  | JStr string
  | JArr "jsval list"
  | JObj "(string \<times> jsval) list"

text \<open>
  An \<open>AxiosRequestConfig\<close> (and a \<open>Partial\<close> of it) is an object with optional keys
  \<open>url\<close>, \<open>method\<close>, \<open>params\<close>, \<open>data\<close>, \<open>timeout\<close>, \<open>headers\<close>, ...: a finite map from
  key names to values. Reading a missing key gives \<open>undefined\<close>; the object spread
  \<open>{ ...a, ...b }\<close> is \<open>a ++ b\<close>.
\<close>

type_synonym config = "string \<rightharpoonup> jsval"

definition get_prop :: "config \<Rightarrow> string \<Rightarrow> jsval" where
  "get_prop obj k = (case obj k of None \<Rightarrow> JUndefined | Some v \<Rightarrow> v)"

subsection \<open>String conversion\<close>

text \<open>
  \<open>baseOptions.url += `/${path}`\<close> concatenates strings; when the left operand is not a
  string JavaScript converts it first (\<open>undefined\<close> becomes the text "undefined").
\<close>

fun show_nat :: "nat \<Rightarrow> string" where
  "show_nat n =
     (if n < 10 then [''0123456789'' ! n]
      else show_nat (n div 10) @ [''0123456789'' ! (n mod 10)])"

definition show_int :: "int \<Rightarrow> string" where
  "show_int i = (if i < 0 then CHR ''-'' # show_nat (nat (- i)) else show_nat (nat i))"

fun join_with :: "string \<Rightarrow> string list \<Rightarrow> string" where
  "join_with sep [] = []"
| "join_with sep [x] = x"
| "join_with sep (x # y # ys) = x @ sep @ join_with sep (y # ys)"

fun js_to_string :: "jsval \<Rightarrow> string" where
  "js_to_string JUndefined = ''undefined''"
| "js_to_string JNull = ''null''"
| "js_to_string (JBool b) = (if b then ''true'' else ''false'')"
| "js_to_string (JNum i) = show_int i"
| "js_to_string (JBigInt i) = show_int i"
| "js_to_string (JStr s) = s"
| "js_to_string (JArr xs) =
     join_with '',''
       (map (\<lambda>x. if x = JUndefined \<or> x = JNull then [] else js_to_string x) xs)"
| "js_to_string (JObj kvs) = ''[object Object]''"

subsection \<open>Serialisation\<close>

text \<open>
  \<open>JSON.stringify\<close> throws a TypeError when the value holds a BigInt, at any depth; on
  every other value here it returns (for \<open>undefined\<close> it returns \<open>undefined\<close>).
\<close>

fun stringify_throws :: "jsval \<Rightarrow> bool" where
  "stringify_throws (JBigInt n) = True"
| "stringify_throws (JArr xs) = list_ex stringify_throws xs"
| "stringify_throws (JObj kvs) = list_ex stringify_throws (map snd kvs)"
| "stringify_throws v = False"

section \<open>Schemas, errors and collaborators\<close>

text \<open>
  A Zod schema is used through \<open>safeParse\<close> only, which never throws: it returns the
  parsed (normalised) data or a \<open>ZodError\<close> holding the issues.
\<close>

datatype zod_error = ZodError (issues: "jsval list")

type_synonym schema = "jsval \<Rightarrow> zod_error + jsval"

type_synonym addr = nat

text \<open>
  The error classes are declared in a module that is not part of the sources at hand;
  their shape is fixed by their uses: the constructor calls
  \<open>new RequestValidationError(parseResponse.error, { requestOptions, request })\<close> and
  \<open>new ResponseValidationError(parseResponse.error, { response, requestOptions })\<close>, and
  the reads \<open>error.zodError.issues\<close> and \<open>error.metadata.requestOptions\<close> of the default
  handler. \<open>metadata.requestOptions\<close> is a reference to the option object, not a copy of
  it. Every other thrown value (a transport error, a rejection of the option setter) is
  \<open>OtherError\<close>.
\<close>

datatype err =
    RequestValidationError (zodError: zod_error) (requestOptions_of: addr) (request_of: jsval)
  | ResponseValidationError (zodError: zod_error) (requestOptions_of: addr) (response_of: jsval)
  | OtherError jsval

text \<open>
  What the default handler writes to \<open>console.error\<close>: the error (for its name and
  message) and the values interpolated into the text, in the order of the template. The
  text itself is not rendered; whether building it throws is (\<open>template_throws\<close>
  below).
\<close>

record diagnostic =
  d_error :: err
  d_timeout :: jsval
  d_method :: jsval
  d_url :: jsval
  d_body :: jsval
  d_params :: jsval
  d_issues :: "jsval list"

text \<open>
  Everything outside the request maker: the console, and the state \<open>remote\<close> of the
  collaborators (the server behind axios, the token source behind the option setter,
  whatever a caller's handler touches). The collaborators act on this part only: they
  do not call back into the builder.
\<close>

record 'e outside =
  console :: "diagnostic list"
  remote :: 'e

record axios_response =
  data :: jsval
  status :: int

type_synonym 'e transport = "config \<Rightarrow> 'e outside \<Rightarrow> (err + axios_response) \<times> 'e outside"

type_synonym 'e setter = "'e outside \<Rightarrow> (err + config) \<times> 'e outside"

type_synonym 'e handler =
  "err \<Rightarrow> (addr \<Rightarrow> config) \<Rightarrow> 'e outside \<Rightarrow> (err + jsval) \<times> 'e outside"

subsection \<open>The store and the log of calls\<close>

text \<open>
  Option objects are allocated in a store and referred to by address. \<open>calls\<close> records,
  in order, every call the execution makes to a collaborator: the option setter, a
  schema's \<open>safeParse\<close> (with the slot the schema was taken from and the value submitted)
  and axios (with the content of the option object it is given).
\<close>

datatype slot = Query | Body | Response

datatype event =
    SetterCalled
  | SafeParseCalled slot jsval
  | AxiosCalled config

record 'e world =
  heap :: "addr \<Rightarrow> config"
  nxt :: addr
  calls :: "event list"
  out :: "'e outside"

definition alloc :: "config \<Rightarrow> 'e world \<Rightarrow> addr \<times> 'e world" where
  "alloc obj w = (nxt w, w\<lparr>heap := (heap w)(nxt w := obj), nxt := Suc (nxt w)\<rparr>)"

definition assign :: "addr \<Rightarrow> string \<Rightarrow> jsval \<Rightarrow> 'e world \<Rightarrow> 'e world" where
  "assign a k v w = w\<lparr>heap := (heap w)(a := (heap w a)(k \<mapsto> v))\<rparr>"

definition safeParse :: "slot \<Rightarrow> schema \<Rightarrow> jsval \<Rightarrow> 'e world \<Rightarrow> (zod_error + jsval) \<times> 'e world" where
  "safeParse sl s v w = (s v, w\<lparr>calls := calls w @ [SafeParseCalled sl v]\<rparr>)"

section \<open>The validation pipeline\<close>

text \<open>
  \<open>validateRequestItem\<close> and \<open>handleValidatedResponse\<close>. The slot is not an argument of
  the source function: it only labels the entry in the log of calls.
\<close>

definition validateRequestItem ::
  "slot \<Rightarrow> addr \<Rightarrow> jsval \<Rightarrow> schema option \<Rightarrow> 'e world \<Rightarrow> (err + jsval) \<times> 'e world" where
  "validateRequestItem sl baseOptions requestItem schema w =
     (case schema of
        None \<Rightarrow> (Inr requestItem, w)
      | Some s \<Rightarrow>
          (case safeParse sl s requestItem w of
             (Inl zerr, w') \<Rightarrow> (Inl (RequestValidationError zerr baseOptions requestItem), w')
           | (Inr parsed, w') \<Rightarrow> (Inr parsed, w')))"

definition handleValidatedResponse ::
  "addr \<Rightarrow> jsval \<Rightarrow> schema option \<Rightarrow> 'e world \<Rightarrow> (err + jsval) \<times> 'e world" where
  "handleValidatedResponse baseOptions response schema w =
     (case schema of
        None \<Rightarrow> (Inr response, w)
      | Some s \<Rightarrow>
          (case safeParse Response s response w of
             (Inl zerr, w') \<Rightarrow> (Inl (ResponseValidationError zerr baseOptions response), w')
           | (Inr parsed, w') \<Rightarrow> (Inr parsed, w')))"

section \<open>The execution engine\<close>

text \<open>
  \<open>asyncOptionsSetterMethod ? await asyncOptionsSetterMethod() : {}\<close>: the setter, when
  there is one, is called and its result awaited; a rejection is an error of
  \<open>execRequest\<close>.
\<close>

definition resolveAsyncOptions :: "'e setter option \<Rightarrow> 'e world \<Rightarrow> (err + config) \<times> 'e world" where
  "resolveAsyncOptions asyncOptionsSetterMethod w =
     (case asyncOptionsSetterMethod of
        None \<Rightarrow> (Inr Map.empty, w)
      | Some f \<Rightarrow>
          (case f (out w) of
             (r, o') \<Rightarrow> (r, w\<lparr>calls := calls w @ [SetterCalled], out := o'\<rparr>)))"

text \<open>\<open>await axios(requestOptions)\<close>: axios is given the option object as it is then.\<close>

definition callAxios :: "'e transport \<Rightarrow> addr \<Rightarrow> 'e world \<Rightarrow> (err + axios_response) \<times> 'e world" where
  "callAxios axios requestOptions w =
     (case axios (heap w requestOptions) (out w) of
        (r, o') \<Rightarrow>
          (r, w\<lparr>calls := calls w @ [AxiosCalled (heap w requestOptions)], out := o'\<rparr>))"

record schemas =
  query_s :: "schema option"
  body_s :: "schema option"
  response_s :: "schema option"

text \<open>\<open>schemas?.query\<close> and its siblings: the schemas object itself is optional.\<close>

definition schema_of :: "schemas option \<Rightarrow> (schemas \<Rightarrow> schema option) \<Rightarrow> schema option" where
  "schema_of ss sel = (case ss of None \<Rightarrow> None | Some r \<Rightarrow> sel r)"

definition execRequest ::
  "'e transport \<Rightarrow> addr \<Rightarrow> 'e setter option \<Rightarrow> schemas option \<Rightarrow> 'e world
     \<Rightarrow> (err + jsval) \<times> 'e world" where
  "execRequest axios baseOptions asyncOptionsSetterMethod ss w =
     (case resolveAsyncOptions asyncOptionsSetterMethod w of
        (Inl e, w1) \<Rightarrow> (Inl e, w1)
      | (Inr asyncOptions, w1) \<Rightarrow>
     (case alloc (heap w1 baseOptions ++ asyncOptions) w1 of
        (requestOptions, w2) \<Rightarrow>
     (case validateRequestItem Query requestOptions
             (get_prop (heap w2 requestOptions) ''params'') (schema_of ss query_s) w2 of
        (Inl e, w3) \<Rightarrow> (Inl e, w3)
      | (Inr params, w3) \<Rightarrow>
     (let w4 = assign requestOptions ''params'' params w3 in
      case validateRequestItem Body requestOptions
             (get_prop (heap w4 requestOptions) ''data'') (schema_of ss body_s) w4 of
        (Inl e, w5) \<Rightarrow> (Inl e, w5)
      | (Inr body, w5) \<Rightarrow>
     (let w6 = assign requestOptions ''data'' body w5 in
      case callAxios axios requestOptions w6 of
        (Inl e, w7) \<Rightarrow> (Inl e, w7)
      | (Inr response, w7) \<Rightarrow>
          handleValidatedResponse requestOptions (data response)
            (schema_of ss response_s) w7)))))"

section \<open>Error handling hooks\<close>

text \<open>
  The default handler reads \<open>requestOptions\<close> from the error's metadata, builds the text
  of the diagnostic, writes it to the console and throws the error it was given. The
  text is built before \<open>console.error\<close> is called, and building it calls
  \<open>JSON.stringify\<close> on the data, the params and the issues: when one of these calls
  throws, the handler throws that TypeError, and nothing is written. The type of the
  handler admits the two validation errors only; on another value the read of
  \<open>error.metadata\<close> fails with a TypeError before anything is written.
\<close>

definition diagnostic_of :: "err \<Rightarrow> config \<Rightarrow> diagnostic" where
  "diagnostic_of error requestOptions =
     \<lparr>d_error = error,
      d_timeout = get_prop requestOptions ''timeout'',
      d_method = get_prop requestOptions ''method'',
      d_url = get_prop requestOptions ''url'',
      d_body = get_prop requestOptions ''data'',
      d_params = get_prop requestOptions ''params'',
      d_issues = issues (zodError error)\<rparr>"

definition template_throws :: "err \<Rightarrow> config \<Rightarrow> bool" where
  "template_throws error requestOptions =
     (stringify_throws (get_prop requestOptions ''data'')
      \<or> stringify_throws (get_prop requestOptions ''params'')
      \<or> stringify_throws (JArr (issues (zodError error))))"

definition defaultHandleValidationError :: "'e handler" where
  "defaultHandleValidationError error hp ou =
     (case error of
        OtherError x \<Rightarrow> (Inl (OtherError (JStr ''TypeError'')), ou)
      | _ \<Rightarrow>
          if template_throws error (hp (requestOptions_of error))
          then (Inl (OtherError (JStr ''TypeError'')), ou)
          else (Inl error,
                ou\<lparr>console := console ou @ [diagnostic_of error (hp (requestOptions_of error))]\<rparr>))"

definition defaultRequestValidationHandler :: "'e handler" where
  "defaultRequestValidationHandler error = defaultHandleValidationError error"

definition defaultResponseValidationHandler :: "'e handler" where
  "defaultResponseValidationHandler error = defaultHandleValidationError error"

section \<open>The builder\<close>

text \<open>
  The variables captured by the closures of \<open>validatedRequestMaker\<close>. \<open>baseOptions\<close> holds
  a reference to the option object. The variables of the three schemas carry the suffix
  \<open>_v\<close>, the chain methods of the same names do not.
\<close>

record 'e builder =
  baseOptions :: addr
  asyncOptionsSetterMethod :: "'e setter option"
  querySchema_v :: "schema option"
  bodySchema_v :: "schema option"
  responseSchema_v :: "schema option"
  requestValidationErrorHandler :: "'e handler"
  responseValidationErrorHandler :: "'e handler"

type_synonym 'e st = "'e builder \<times> 'e world"

definition validatedRequestMaker :: "string \<Rightarrow> 'e world \<Rightarrow> 'e st" where
  "validatedRequestMaker host w =
     (case alloc [''url'' \<mapsto> JStr host] w of
        (a, w') \<Rightarrow>
          (\<lparr>baseOptions = a,
            asyncOptionsSetterMethod = None,
            querySchema_v = None,
            bodySchema_v = None,
            responseSchema_v = None,
            requestValidationErrorHandler = defaultRequestValidationHandler,
            responseValidationErrorHandler = defaultResponseValidationHandler\<rparr>, w'))"

text \<open>
  The chain methods. Each returns \<open>requestMaker\<close> itself, so a chain is a composition of
  these state transformers. The chain method \<open>method\<close> is \<open>httpMethod\<close> here.
\<close>

definition asyncOptionsSetter :: "'e setter \<Rightarrow> 'e st \<Rightarrow> 'e st" where
  "asyncOptionsSetter optionsSetter = (\<lambda>(b, w). (b\<lparr>asyncOptionsSetterMethod := Some optionsSetter\<rparr>, w))"

definition handleRequestValidationError :: "'e handler \<Rightarrow> 'e st \<Rightarrow> 'e st" where
  "handleRequestValidationError handler = (\<lambda>(b, w). (b\<lparr>requestValidationErrorHandler := handler\<rparr>, w))"

definition handleResponseValidationError :: "'e handler \<Rightarrow> 'e st \<Rightarrow> 'e st" where
  "handleResponseValidationError handler = (\<lambda>(b, w). (b\<lparr>responseValidationErrorHandler := handler\<rparr>, w))"

definition options :: "config \<Rightarrow> 'e st \<Rightarrow> 'e st" where
  "options opts =
     (\<lambda>(b, w). case alloc (heap w (baseOptions b) ++ opts) w of
                 (a, w') \<Rightarrow> (b\<lparr>baseOptions := a\<rparr>, w'))"

definition concatPath :: "string \<Rightarrow> 'e st \<Rightarrow> 'e st" where
  "concatPath path =
     (\<lambda>(b, w). (b, assign (baseOptions b) ''url''
                    (JStr (js_to_string (get_prop (heap w (baseOptions b)) ''url'') @ ''/'' @ path)) w))"

definition httpMethod :: "jsval \<Rightarrow> 'e st \<Rightarrow> 'e st" where
  "httpMethod m = (\<lambda>(b, w). (b, assign (baseOptions b) ''method'' m w))"

definition querySchema :: "schema \<Rightarrow> 'e st \<Rightarrow> 'e st" where
  "querySchema s = (\<lambda>(b, w). (b\<lparr>querySchema_v := Some s\<rparr>, w))"

definition query :: "jsval \<Rightarrow> 'e st \<Rightarrow> 'e st" where
  "query q = (\<lambda>(b, w). (b, assign (baseOptions b) ''params'' q w))"

definition responseSchema :: "schema \<Rightarrow> 'e st \<Rightarrow> 'e st" where
  "responseSchema s = (\<lambda>(b, w). (b\<lparr>responseSchema_v := Some s\<rparr>, w))"

definition bodySchema :: "schema \<Rightarrow> 'e st \<Rightarrow> 'e st" where
  "bodySchema s = (\<lambda>(b, w). (b\<lparr>bodySchema_v := Some s\<rparr>, w))"

definition body :: "jsval \<Rightarrow> 'e st \<Rightarrow> 'e st" where
  "body d = (\<lambda>(b, w). (b, assign (baseOptions b) ''data'' d w))"

text \<open>
  \<open>exec\<close>: the engine is run on the current values of the captured variables, and the
  \<open>catch\<close> dispatches on the class of the error. A handler is given the error, read
  access to the option objects, and the outside.
\<close>

definition callHandler :: "'e handler \<Rightarrow> err \<Rightarrow> 'e world \<Rightarrow> (err + jsval) \<times> 'e world" where
  "callHandler h error w = (case h error (heap w) (out w) of (r, o') \<Rightarrow> (r, w\<lparr>out := o'\<rparr>))"

definition exec :: "'e transport \<Rightarrow> 'e st \<Rightarrow> (err + jsval) \<times> 'e world" where
  "exec axios =
     (\<lambda>(b, w).
        case execRequest axios (baseOptions b) (asyncOptionsSetterMethod b)
               (Some \<lparr>query_s = querySchema_v b, body_s = bodySchema_v b,
                      response_s = responseSchema_v b\<rparr>) w of
          (Inr result, w') \<Rightarrow> (Inr result, w')
        | (Inl error, w') \<Rightarrow>
            (case error of
               RequestValidationError z a v \<Rightarrow> callHandler (requestValidationErrorHandler b) error w'
             | ResponseValidationError z a v \<Rightarrow> callHandler (responseValidationErrorHandler b) error w'
             | OtherError x \<Rightarrow> (Inl error, w')))"

section \<open>Observations\<close>

text \<open>
  Notions used to state the properties. \<open>description\<close> is the Request Description a
  builder currently refers to. \<open>new_calls w w'\<close> are the calls made between two
  worlds, \<open>sent\<close> the option objects given to axios, and \<open>rank\<close> numbers the calls in
  the order the engine is meant to make them.
\<close>

definition description :: "'e st \<Rightarrow> config" where
  "description = (\<lambda>(b, w). heap w (baseOptions b))"

definition new_calls :: "'e world \<Rightarrow> 'e world \<Rightarrow> event list" where
  "new_calls w w' = drop (length (calls w)) (calls w')"

fun rank :: "event \<Rightarrow> nat" where
  "rank SetterCalled = 0"
| "rank (SafeParseCalled Query v) = 1"
| "rank (SafeParseCalled Body v) = 2"
| "rank (AxiosCalled cfg) = 3"
| "rank (SafeParseCalled Response v) = 4"

fun sent :: "event list \<Rightarrow> config list" where
  "sent [] = []"
| "sent (AxiosCalled cfg # es) = cfg # sent es"
| "sent (e # es) = sent es"

fun parsed_at :: "slot \<Rightarrow> event list \<Rightarrow> jsval list" where
  "parsed_at sl [] = []"
| "parsed_at sl (SafeParseCalled sl' v # es) =
     (if sl' = sl then v # parsed_at sl es else parsed_at sl es)"
| "parsed_at sl (e # es) = parsed_at sl es"

fun setter_calls :: "event list \<Rightarrow> nat" where
  "setter_calls [] = 0"
| "setter_calls (SetterCalled # es) = Suc (setter_calls es)"
| "setter_calls (e # es) = setter_calls es"

text \<open>
  The object a builder refers to has been allocated. This holds of every builder made by
  \<open>validatedRequestMaker\<close> and is kept by the chain methods and by \<open>exec\<close>.
\<close>

definition allocated :: "'e st \<Rightarrow> bool" where
  "allocated = (\<lambda>(b, w). baseOptions b < nxt w)"

text \<open>
  What validation makes of a value: the value itself when the slot has no schema, the
  schema's verdict otherwise.
\<close>

definition verdict :: "schema option \<Rightarrow> jsval \<Rightarrow> zod_error + jsval" where
  "verdict schema v = (case schema of None \<Rightarrow> Inr v | Some s \<Rightarrow> s v)"

text \<open>The schemas object that \<open>exec\<close> passes to the engine.\<close>

definition schemas_of :: "'e builder \<Rightarrow> schemas" where
  "schemas_of b = \<lparr>query_s = querySchema_v b, body_s = bodySchema_v b,
                   response_s = responseSchema_v b\<rparr>"

section \<open>Example collaborators\<close>

text \<open>
  Stand-ins for the collaborators, used to run the request maker on concrete inputs.
  \<open>field_schema k ok\<close> behaves as \<open>z.object({ k: ... })\<close> does: it accepts an object whose
  field \<open>k\<close> passes \<open>ok\<close>, and its output keeps that field only.
\<close>

definition field_schema :: "string \<Rightarrow> (jsval \<Rightarrow> bool) \<Rightarrow> schema" where
  "field_schema k ok v =
     (case v of
        JObj kvs \<Rightarrow>
          (case map_of kvs k of
             None \<Rightarrow> Inl (ZodError [JStr (k @ '': Required'')])
           | Some x \<Rightarrow>
               if ok x then Inr (JObj [(k, x)])
               else Inl (ZodError [JStr (k @ '': Invalid type'')]))
      | _ \<Rightarrow> Inl (ZodError [JStr ''Expected object'']))"

fun is_number :: "jsval \<Rightarrow> bool" where
  "is_number (JNum n) = True"
| "is_number v = False"

fun is_string :: "jsval \<Rightarrow> bool" where
  "is_string (JStr s) = True"
| "is_string v = False"

definition name_schema :: schema where
  "name_schema = field_schema ''name'' is_string"

definition age_schema :: schema where
  "age_schema = field_schema ''age'' is_number"

definition id_schema :: schema where
  "id_schema = field_schema ''id'' is_number"

text \<open>
  A server that answers every request with \<open>{ id: 1, etag: 'x' }\<close> and counts the
  requests, and one that refuses every connection.
\<close>

definition id_server :: "nat transport" where
  "id_server cfg ou = (Inr \<lparr>data = JObj [(''id'', JNum 1), (''etag'', JStr ''x'')], status = 200\<rparr>,
                       ou\<lparr>remote := Suc (remote ou)\<rparr>)"

definition refusing_server :: "nat transport" where
  "refusing_server cfg ou = (Inl (OtherError (JStr ''ECONNREFUSED'')), ou)"

definition token_options :: config where
  "token_options =
     [''headers'' \<mapsto> JObj [(''Authorization'', JStr ''Bearer t'')],
      ''params'' \<mapsto> JObj [(''name'', JStr ''n''), (''page'', JNum 2)]]"

definition token_setter :: "nat setter" where
  "token_setter ou = (Inr token_options, ou)"

text \<open>A setter whose result changes from one call to the next.\<close>

definition counting_setter :: "nat setter" where
  "counting_setter ou =
     (Inr [''params'' \<mapsto> JObj [(''name'', JStr (show_nat (remote ou)))]],
      ou\<lparr>remote := Suc (remote ou)\<rparr>)"

definition fallback_handler :: "nat handler" where
  "fallback_handler error hp ou = (Inr (JStr ''fallback''), ou)"

definition w0 :: "nat world" where
  "w0 = \<lparr>heap = (\<lambda>a. Map.empty), nxt = 0, calls = [], out = \<lparr>console = [], remote = 0\<rparr>\<rparr>"

text \<open>A builder whose query and body are both invalid for its schemas.\<close>

definition invalid_request :: "nat st" where
  "invalid_request =
     body (JObj [(''age'', JStr ''x'')])
       (query (JObj [(''name'', JNum 5)])
         (bodySchema age_schema
           (querySchema name_schema (validatedRequestMaker ''http://h'' w0))))"

text \<open>The builder above with a request-validation handler that swallows the error.\<close>

definition fallback_request :: "nat st" where
  "fallback_request = handleRequestValidationError fallback_handler invalid_request"

text \<open>A builder with no schema.\<close>

definition plain_request :: "nat st" where
  "plain_request = httpMethod (JStr ''GET'') (validatedRequestMaker ''http://h'' w0)"

text \<open>
  A body that its schema rejects and that holds a BigInt: \<open>{ age: 1n }\<close> against
  \<open>{ age: number }\<close>, on a new builder, which has the default handlers.
\<close>

definition bigint_request :: "nat st" where
  "bigint_request =
     body (JObj [(''age'', JBigInt 1)])
       (bodySchema age_schema (validatedRequestMaker ''http://h'' w0))"

text \<open>The value of one key in each option object given to axios.\<close>

definition sent_prop :: "string \<Rightarrow> event list \<Rightarrow> jsval option list" where
  "sent_prop k evs = map (\<lambda>cfg. cfg k) (sent evs)"

text \<open>
  The builder of the second end-to-end example: a body schema requiring
  \<open>{ age: number }\<close> and the body \<open>{ age: 'x' }\<close>.
\<close>

definition age_request :: "nat st" where
  "age_request =
     body (JObj [(''age'', JStr ''x'')])
       (bodySchema age_schema (validatedRequestMaker ''http://h'' w0))"

text \<open>A query that its schema accepts and trims, with a body that its schema rejects.\<close>

definition half_valid_request :: "nat st" where
  "half_valid_request =
     body (JObj [(''age'', JStr ''x'')])
       (query (JObj [(''name'', JStr ''n''), (''page'', JNum 2)])
         (bodySchema age_schema
           (querySchema name_schema (validatedRequestMaker ''http://h'' w0))))"

text \<open>A response schema that the server's answer does not meet.\<close>

definition mismatch_request :: "nat st" where
  "mismatch_request = responseSchema name_schema (validatedRequestMaker ''http://h'' w0)"

text \<open>Query, body and response all pass, and each schema trims its value.\<close>

definition full_request :: "nat st" where
  "full_request =
     responseSchema id_schema
       (body (JObj [(''age'', JNum 3), (''note'', JStr ''y'')])
         (query (JObj [(''name'', JStr ''n''), (''page'', JNum 2)])
           (bodySchema age_schema
             (querySchema name_schema (validatedRequestMaker ''http://h'' w0)))))"

text \<open>
  Static options and the option setter both define \<open>params\<close> and \<open>headers\<close>; the query
  schema trims the params.
\<close>

definition paged_request :: "nat st" where
  "paged_request =
     asyncOptionsSetter token_setter
       (options [''headers'' \<mapsto> JObj [(''Accept'', JStr ''text/plain'')]]
         (query (JObj [(''name'', JStr ''s'')])
           (querySchema name_schema (validatedRequestMaker ''http://h'' w0))))"

text \<open>A builder with the counting setter and a query schema.\<close>

definition counted_request :: "nat st" where
  "counted_request =
     asyncOptionsSetter counting_setter
       (querySchema name_schema (validatedRequestMaker ''http://h'' w0))"

section \<open>Runs of the engine\<close>

text \<open>
  A run of \<open>execRequest\<close> ends in one of four ways: the option setter rejects; the query
  is rejected; the query passes and the body is rejected; both pass and axios is called.
  The lemmas below give the result and the final world of each.
\<close>

lemma resolve_frame:
  "resolveAsyncOptions m w = (r, w1) \<Longrightarrow>
     heap w1 = heap w \<and> nxt w1 = nxt w
     \<and> calls w1 = calls w @ (case m of None \<Rightarrow> [] | Some f \<Rightarrow> [SetterCalled])"
  by (cases m) (auto simp: resolveAsyncOptions_def split: prod.splits)

lemma validateRequestItem_eq:
  "validateRequestItem sl a v s w =
     (case verdict s v of Inl z \<Rightarrow> Inl (RequestValidationError z a v) | Inr x \<Rightarrow> Inr x,
      w\<lparr>calls := calls w @ (case s of None \<Rightarrow> [] | Some q \<Rightarrow> [SafeParseCalled sl v])\<rparr>)"
  by (cases s) (simp_all add: validateRequestItem_def safeParse_def verdict_def split: sum.splits)

lemma handleValidatedResponse_eq:
  "handleValidatedResponse a v s w =
     (case verdict s v of Inl z \<Rightarrow> Inl (ResponseValidationError z a v) | Inr x \<Rightarrow> Inr x,
      w\<lparr>calls := calls w @ (case s of None \<Rightarrow> [] | Some q \<Rightarrow> [SafeParseCalled Response v])\<rparr>)"
  by (cases s) (simp_all add: handleValidatedResponse_def safeParse_def verdict_def split: sum.splits)

lemma exec_setter_fails:
  "resolveAsyncOptions m w = (Inl e, w1) \<Longrightarrow> execRequest axios base m ss w = (Inl e, w1)"
  by (simp add: execRequest_def)

lemma exec_query_fails:
  assumes S: "resolveAsyncOptions m w = (Inr async, w1)"
    and Q: "verdict (schema_of ss query_s) (get_prop (heap w base ++ async) ''params'') = Inl z"
  shows "execRequest axios base m ss w =
           (Inl (RequestValidationError z (nxt w) (get_prop (heap w base ++ async) ''params'')),
            w1\<lparr>heap := (heap w)(nxt w := heap w base ++ async), nxt := Suc (nxt w),
               calls := calls w1 @ [SafeParseCalled Query (get_prop (heap w base ++ async) ''params'')]\<rparr>)"
proof -
  from resolve_frame[OF S] have H: "heap w1 = heap w" "nxt w1 = nxt w" by simp_all
  from Q obtain q where q: "schema_of ss query_s = Some q"
    by (cases "schema_of ss query_s") (simp_all add: verdict_def)
  show ?thesis
    using Q by (simp add: execRequest_def S alloc_def H validateRequestItem_eq q)
qed


lemma exec_body_fails:
  assumes S: "resolveAsyncOptions m w = (Inr async, w1)"
    and Q: "verdict (schema_of ss query_s) (get_prop (heap w base ++ async) ''params'') = Inr p'"
    and B: "verdict (schema_of ss body_s) (get_prop (heap w base ++ async) ''data'') = Inl z"
  shows "execRequest axios base m ss w =
           (Inl (RequestValidationError z (nxt w) (get_prop (heap w base ++ async) ''data'')),
            w1\<lparr>heap := (heap w)(nxt w := (heap w base ++ async)(''params'' \<mapsto> p')),
               nxt := Suc (nxt w),
               calls := calls w1
                 @ (case schema_of ss query_s of None \<Rightarrow> []
                    | Some q \<Rightarrow> [SafeParseCalled Query (get_prop (heap w base ++ async) ''params'')])
                 @ [SafeParseCalled Body (get_prop (heap w base ++ async) ''data'')]\<rparr>)"
proof -
  from resolve_frame[OF S] have H: "heap w1 = heap w" "nxt w1 = nxt w" by simp_all
  from B obtain b where b: "schema_of ss body_s = Some b"
    by (cases "schema_of ss body_s") (simp_all add: verdict_def)
  have D: "get_prop ((heap w base ++ async)(''params'' \<mapsto> p')) ''data''
             = get_prop (heap w base ++ async) ''data''"
    by (simp add: get_prop_def)
  show ?thesis
    using Q B
    by (simp add: execRequest_def S alloc_def assign_def H validateRequestItem_eq b D Let_def
          cong: option.case_cong)
qed

lemma exec_sent:
  assumes S: "resolveAsyncOptions m w = (Inr async, w1)"
    and Q: "verdict (schema_of ss query_s) (get_prop (heap w base ++ async) ''params'') = Inr p'"
    and B: "verdict (schema_of ss body_s) (get_prop (heap w base ++ async) ''data'') = Inr d'"
    and A: "axios ((heap w base ++ async)(''params'' \<mapsto> p', ''data'' \<mapsto> d')) (out w1) = (res, o')"
  shows "execRequest axios base m ss w =
           ((case res of
               Inl e \<Rightarrow> Inl e
             | Inr resp \<Rightarrow>
                 (case verdict (schema_of ss response_s) (data resp) of
                    Inl z \<Rightarrow> Inl (ResponseValidationError z (nxt w) (data resp))
                  | Inr x \<Rightarrow> Inr x)),
            w1\<lparr>heap := (heap w)(nxt w := (heap w base ++ async)(''params'' \<mapsto> p', ''data'' \<mapsto> d')),
               nxt := Suc (nxt w),
               calls := calls w1
                 @ (case schema_of ss query_s of None \<Rightarrow> []
                    | Some q \<Rightarrow> [SafeParseCalled Query (get_prop (heap w base ++ async) ''params'')])
                 @ (case schema_of ss body_s of None \<Rightarrow> []
                    | Some q \<Rightarrow> [SafeParseCalled Body (get_prop (heap w base ++ async) ''data'')])
                 @ [AxiosCalled ((heap w base ++ async)(''params'' \<mapsto> p', ''data'' \<mapsto> d'))]
                 @ (case res of
                      Inl e \<Rightarrow> []
                    | Inr resp \<Rightarrow>
                        (case schema_of ss response_s of None \<Rightarrow> []
                         | Some q \<Rightarrow> [SafeParseCalled Response (data resp)])),
               out := o'\<rparr>)"
proof -
  from resolve_frame[OF S] have H: "heap w1 = heap w" "nxt w1 = nxt w" by simp_all
  have D: "get_prop ((heap w base ++ async)(''params'' \<mapsto> p')) ''data''
             = get_prop (heap w base ++ async) ''data''"
    by (simp add: get_prop_def)
  show ?thesis
  proof (cases res)
    case (Inl e)
    show ?thesis
      using Q B A Inl
      by (simp add: execRequest_def S alloc_def assign_def H validateRequestItem_eq D Let_def
            callAxios_def cong: option.case_cong)
  next
    case (Inr resp)
    show ?thesis
      using Q B A Inr
      by (simp add: execRequest_def S alloc_def assign_def H validateRequestItem_eq D Let_def
            callAxios_def handleValidatedResponse_eq cong: option.case_cong)
  qed
qed


lemma execRequest_scenarios:
  obtains
    (setter_fails) e w1 where
      "resolveAsyncOptions m w = (Inl e, w1)"
      "execRequest axios base m ss w = (Inl e, w1)"
  | (query_fails) async w1 z where
      "resolveAsyncOptions m w = (Inr async, w1)"
      "verdict (schema_of ss query_s) (get_prop (heap w base ++ async) ''params'') = Inl z"
  | (body_fails) async w1 p' z where
      "resolveAsyncOptions m w = (Inr async, w1)"
      "verdict (schema_of ss query_s) (get_prop (heap w base ++ async) ''params'') = Inr p'"
      "verdict (schema_of ss body_s) (get_prop (heap w base ++ async) ''data'') = Inl z"
  | (sent) async w1 p' d' res o' where
      "resolveAsyncOptions m w = (Inr async, w1)"
      "verdict (schema_of ss query_s) (get_prop (heap w base ++ async) ''params'') = Inr p'"
      "verdict (schema_of ss body_s) (get_prop (heap w base ++ async) ''data'') = Inr d'"
      "axios ((heap w base ++ async)(''params'' \<mapsto> p', ''data'' \<mapsto> d')) (out w1) = (res, o')"
proof -
  obtain r0 w1 where S: "resolveAsyncOptions m w = (r0, w1)"
    by (cases "resolveAsyncOptions m w")
  show thesis
  proof (cases r0)
    case (Inl e)
    with S exec_setter_fails[where m=m and w=w and e=e and ?w1.0=w1] setter_fails show thesis by simp
  next
    case (Inr async)
    note S' = S[unfolded Inr]
    show thesis
    proof (cases "verdict (schema_of ss query_s) (get_prop (heap w base ++ async) ''params'')")
      case (Inl z)
      with S' query_fails show thesis by blast
    next
      case Q: (Inr p')
      show thesis
      proof (cases "verdict (schema_of ss body_s) (get_prop (heap w base ++ async) ''data'')")
        case (Inl z)
        with S' Q body_fails show thesis by blast
      next
        case B: (Inr d')
        obtain res o' where
          "axios ((heap w base ++ async)(''params'' \<mapsto> p', ''data'' \<mapsto> d')) (out w1) = (res, o')"
          by (cases "axios ((heap w base ++ async)(''params'' \<mapsto> p', ''data'' \<mapsto> d')) (out w1)")
        with S' Q B sent show thesis by blast
      qed
    qed
  qed
qed

lemma execRequest_shape:
  assumes run: "execRequest axios base m ss w = (r, w')"
  shows "nxt w \<le> nxt w'
       \<and> (\<forall>a. a \<noteq> nxt w \<longrightarrow> heap w' a = heap w a)
       \<and> calls w' = calls w @ new_calls w w'
       \<and> sorted_wrt (<) (map rank (new_calls w w'))
       \<and> setter_calls (new_calls w w') = (case m of None \<Rightarrow> 0 | Some f \<Rightarrow> 1)"
proof (cases rule: execRequest_scenarios[where m=m and w=w and ss=ss and base=base and axios=axios])
  case (setter_fails e w1)
  from resolve_frame[OF setter_fails(1)] run setter_fails(2)
  show ?thesis by (auto simp: new_calls_def split: option.splits)
next
  case (query_fails async w1 z)
  from resolve_frame[OF query_fails(1)] run exec_query_fails[OF query_fails, where axios=axios]
  show ?thesis by (auto simp: new_calls_def split: option.splits)
next
  case (body_fails async w1 p' z)
  from resolve_frame[OF body_fails(1)] run exec_body_fails[OF body_fails, where axios=axios]
  show ?thesis by (auto simp: new_calls_def split: option.splits)
next
  case (sent async w1 p' d' res o')
  from resolve_frame[OF sent(1)] run exec_sent[where axios=axios, OF sent]
  show ?thesis by (auto simp: new_calls_def split: option.splits sum.splits)
qed

subsection \<open>Unfolding the model on concrete inputs\<close>

lemmas chain_defs = validatedRequestMaker_def asyncOptionsSetter_def
  handleRequestValidationError_def handleResponseValidationError_def options_def
  concatPath_def httpMethod_def querySchema_def query_def responseSchema_def bodySchema_def
  body_def alloc_def assign_def get_prop_def w0_def

lemmas schema_defs = name_schema_def age_schema_def id_schema_def field_schema_def

lemmas engine_defs = execRequest_def resolveAsyncOptions_def validateRequestItem_def
  handleValidatedResponse_def safeParse_def callAxios_def schema_of_def schemas_of_def

lemmas handler_defs = callHandler_def defaultRequestValidationHandler_def
  defaultResponseValidationHandler_def defaultHandleValidationError_def diagnostic_of_def
  template_throws_def fallback_handler_def

section \<open>Properties\<close>

text \<open>
  C7. With no schema, validation is the identity: \<open>validateRequestItem\<close> returns the
  value it was given, raises nothing, calls no schema and leaves the store as it was, for
  every value and every context; \<open>handleValidatedResponse\<close> does the same for a response.
\<close>

theorem no_schema_passthrough:
  "validateRequestItem sl ctx v None w = (Inr v, w)
   \<and> handleValidatedResponse ctx v None w = (Inr v, w)"
  by (simp add: validateRequestItem_def handleValidatedResponse_def)

text \<open>
  C1. In every run of the engine the calls to the collaborators come in one order: the
  option setter, the query schema, the body schema, axios, the response schema, each at
  most once. When the query schema rejects the final params, the error raised is the
  query's (it carries the params and the query schema's issues), whatever the body is;
  the body schema and axios are not called, and the outside is as the option setter left
  it.
\<close>

theorem validation_order:
  assumes run: "execRequest axios base m ss w = (r, w')"
  shows "calls w' = calls w @ new_calls w w'
       \<and> sorted_wrt (<) (map rank (new_calls w w'))
       \<and> (\<forall>async w1 q z.
            resolveAsyncOptions m w = (Inr async, w1)
            \<longrightarrow> schema_of ss query_s = Some q
            \<longrightarrow> q (get_prop (heap w base ++ async) ''params'') = Inl z
            \<longrightarrow> r = Inl (RequestValidationError z (nxt w)
                          (get_prop (heap w base ++ async) ''params''))
                \<and> sent (new_calls w w') = []
                \<and> parsed_at Body (new_calls w w') = []
                \<and> out w' = out w1)"
proof -
  have "r = Inl (RequestValidationError z (nxt w) (get_prop (heap w base ++ async) ''params''))
        \<and> sent (new_calls w w') = []
        \<and> parsed_at Body (new_calls w w') = []
        \<and> out w' = out w1"
    if S: "resolveAsyncOptions m w = (Inr async, w1)"
      and q: "schema_of ss query_s = Some q"
      and rej: "q (get_prop (heap w base ++ async) ''params'') = Inl z"
    for async w1 q z
  proof -
    from q rej
    have V: "verdict (schema_of ss query_s) (get_prop (heap w base ++ async) ''params'') = Inl z"
      by (simp add: verdict_def)
    from resolve_frame[OF S] have C: "calls w1 = calls w @ (case m of None \<Rightarrow> [] | Some f \<Rightarrow> [SetterCalled])"
      by simp
    from run exec_query_fails[OF S V, where axios=axios] C
    show ?thesis by (auto simp: new_calls_def split: option.splits)
  qed
  with execRequest_shape[OF run] show ?thesis by blast
qed

theorem validation_order_witness:
  "fst (execRequest id_server (baseOptions (fst invalid_request)) None
          (Some (schemas_of (fst invalid_request))) (snd invalid_request))
     = Inl (RequestValidationError (ZodError [JStr ''name: Invalid type'']) 1
              (JObj [(''name'', JNum 5)]))
   \<and> sent (new_calls (snd invalid_request)
        (snd (execRequest id_server (baseOptions (fst invalid_request)) None
                (Some (schemas_of (fst invalid_request))) (snd invalid_request)))) = []
   \<and> age_schema (get_prop (heap (snd invalid_request) (baseOptions (fst invalid_request))) ''data'')
       = Inl (ZodError [JStr ''age: Invalid type''])"
proof -
  let ?b = "fst invalid_request" and ?w = "snd invalid_request"
  let ?run = "execRequest id_server (baseOptions ?b) None (Some (schemas_of ?b)) ?w"
  have run: "?run = (fst ?run, snd ?run)" by simp
  have S: "resolveAsyncOptions None ?w = (Inr Map.empty, ?w)"
    by (simp add: resolveAsyncOptions_def)
  have q: "schema_of (Some (schemas_of ?b)) query_s = Some name_schema"
    by (simp add: schema_of_def schemas_of_def invalid_request_def chain_defs)
  have p0: "get_prop (heap ?w (baseOptions ?b)) ''params'' = JObj [(''name'', JNum 5)]"
    by (simp add: invalid_request_def chain_defs)
  then have p: "get_prop (heap ?w (baseOptions ?b) ++ Map.empty) ''params'' = JObj [(''name'', JNum 5)]"
    by simp
  have rej: "name_schema (get_prop (heap ?w (baseOptions ?b) ++ Map.empty) ''params'')
               = Inl (ZodError [JStr ''name: Invalid type''])"
    by (simp add: p0 schema_defs)
  have n: "nxt ?w = 1" by (simp add: invalid_request_def chain_defs)
  have d: "age_schema (get_prop (heap ?w (baseOptions ?b)) ''data'') = Inl (ZodError [JStr ''age: Invalid type''])"
    by (simp add: invalid_request_def chain_defs schema_defs)
  from validation_order[OF run] S q rej
  have "fst ?run = Inl (RequestValidationError (ZodError [JStr ''name: Invalid type'']) (nxt ?w)
          (get_prop (heap ?w (baseOptions ?b) ++ Map.empty) ''params''))
        \<and> sent (new_calls ?w (snd ?run)) = []"
    by blast
  with n p d show ?thesis by simp
qed

lemma exec_from_run:
  assumes "execRequest axios (baseOptions b) (asyncOptionsSetterMethod b)
             (Some (schemas_of b)) w = (r, w1)"
  shows "exec axios (b, w) =
           (case r of
              Inr v \<Rightarrow> (Inr v, w1)
            | Inl (RequestValidationError z a v) \<Rightarrow>
                callHandler (requestValidationErrorHandler b) (RequestValidationError z a v) w1
            | Inl (ResponseValidationError z a v) \<Rightarrow>
                callHandler (responseValidationErrorHandler b) (ResponseValidationError z a v) w1
            | Inl (OtherError x) \<Rightarrow> (Inl (OtherError x), w1))"
  using assms by (simp add: exec_def schemas_of_def split: sum.splits err.splits)

text \<open>
  What \<open>exec\<close> does with the outcome of the engine. It hands a RequestValidationError
  to the request-validation handler the builder holds at that moment, a
  ResponseValidationError to its response-validation handler, and returns what the
  handler returns or raises; any other error of the engine, and any result, passes
  through as it is. A handler installed by \<open>handleRequestValidationError\<close> or
  \<open>handleResponseValidationError\<close> replaces the one of its slot only. A new builder holds
  the default handlers. A default handler writes one diagnostic to the console and raises
  the error it was given when the text of the diagnostic can be built; when it cannot,
  it raises a TypeError and writes nothing.
\<close>

lemma exec_dispatch:
  assumes run: "execRequest axios (baseOptions b) (asyncOptionsSetterMethod b)
                  (Some (schemas_of b)) w = (r, w1)"
  shows "(\<forall>z a v. r = Inl (RequestValidationError z a v) \<longrightarrow>
            exec axios (b, w)
              = (fst (requestValidationErrorHandler b (RequestValidationError z a v) (heap w1) (out w1)),
                 w1\<lparr>out := snd (requestValidationErrorHandler b (RequestValidationError z a v)
                                   (heap w1) (out w1))\<rparr>))
       \<and> (\<forall>z a v. r = Inl (ResponseValidationError z a v) \<longrightarrow>
            exec axios (b, w)
              = (fst (responseValidationErrorHandler b (ResponseValidationError z a v) (heap w1) (out w1)),
                 w1\<lparr>out := snd (responseValidationErrorHandler b (ResponseValidationError z a v)
                                   (heap w1) (out w1))\<rparr>))
       \<and> (\<forall>x. r = Inl (OtherError x) \<longrightarrow> exec axios (b, w) = (Inl (OtherError x), w1))
       \<and> (\<forall>v. r = Inr v \<longrightarrow> exec axios (b, w) = (Inr v, w1))
       \<and> requestValidationErrorHandler (fst (handleRequestValidationError h (b, w))) = h
       \<and> responseValidationErrorHandler (fst (handleRequestValidationError h (b, w)))
           = responseValidationErrorHandler b
       \<and> responseValidationErrorHandler (fst (handleResponseValidationError h (b, w))) = h
       \<and> requestValidationErrorHandler (fst (handleResponseValidationError h (b, w)))
           = requestValidationErrorHandler b
       \<and> requestValidationErrorHandler (fst (validatedRequestMaker host w))
           = defaultRequestValidationHandler
       \<and> responseValidationErrorHandler (fst (validatedRequestMaker host w))
           = defaultResponseValidationHandler"
proof -
  have slots:
    "requestValidationErrorHandler (fst (handleRequestValidationError h (b, w))) = h"
    "responseValidationErrorHandler (fst (handleRequestValidationError h (b, w)))
       = responseValidationErrorHandler b"
    "responseValidationErrorHandler (fst (handleResponseValidationError h (b, w))) = h"
    "requestValidationErrorHandler (fst (handleResponseValidationError h (b, w)))
       = requestValidationErrorHandler b"
    by (simp_all add: handleRequestValidationError_def handleResponseValidationError_def)
  have fresh:
    "requestValidationErrorHandler (fst (validatedRequestMaker host w))
       = defaultRequestValidationHandler"
    "responseValidationErrorHandler (fst (validatedRequestMaker host w))
       = defaultResponseValidationHandler"
    by (simp_all add: validatedRequestMaker_def alloc_def)
  have disp:
    "\<forall>z a v. r = Inl (RequestValidationError z a v) \<longrightarrow>
       exec axios (b, w)
         = (fst (requestValidationErrorHandler b (RequestValidationError z a v) (heap w1) (out w1)),
            w1\<lparr>out := snd (requestValidationErrorHandler b (RequestValidationError z a v)
                              (heap w1) (out w1))\<rparr>)"
    "\<forall>z a v. r = Inl (ResponseValidationError z a v) \<longrightarrow>
       exec axios (b, w)
         = (fst (responseValidationErrorHandler b (ResponseValidationError z a v) (heap w1) (out w1)),
            w1\<lparr>out := snd (responseValidationErrorHandler b (ResponseValidationError z a v)
                              (heap w1) (out w1))\<rparr>)"
    "\<forall>x. r = Inl (OtherError x) \<longrightarrow> exec axios (b, w) = (Inl (OtherError x), w1)"
    "\<forall>v. r = Inr v \<longrightarrow> exec axios (b, w) = (Inr v, w1)"
    using exec_from_run[OF run]
    by (simp_all add: callHandler_def split: prod.splits)
  from disp slots fresh show ?thesis by blast
qed

lemma default_handlers:
  "defaultRequestValidationHandler (RequestValidationError z a v) hp ou
     = (if template_throws (RequestValidationError z a v) (hp a)
        then (Inl (OtherError (JStr ''TypeError'')), ou)
        else (Inl (RequestValidationError z a v),
              ou\<lparr>console := console ou @ [diagnostic_of (RequestValidationError z a v) (hp a)]\<rparr>))"
  "defaultResponseValidationHandler (ResponseValidationError z a v) hp ou
     = (if template_throws (ResponseValidationError z a v) (hp a)
        then (Inl (OtherError (JStr ''TypeError'')), ou)
        else (Inl (ResponseValidationError z a v),
              ou\<lparr>console := console ou @ [diagnostic_of (ResponseValidationError z a v) (hp a)]\<rparr>))"
  by (simp_all add: defaultRequestValidationHandler_def defaultResponseValidationHandler_def
        defaultHandleValidationError_def)

lemma invalid_request_run:
  "execRequest id_server (baseOptions (fst fallback_request))
      (asyncOptionsSetterMethod (fst fallback_request))
      (Some (schemas_of (fst fallback_request))) (snd fallback_request)
   = (Inl (RequestValidationError (ZodError [JStr ''name: Invalid type'']) 1
             (JObj [(''name'', JNum 5)])),
      snd (execRequest id_server (baseOptions (fst fallback_request))
             (asyncOptionsSetterMethod (fst fallback_request))
             (Some (schemas_of (fst fallback_request))) (snd fallback_request)))"
  by (simp add: fallback_request_def invalid_request_def chain_defs engine_defs schema_defs)

lemma plain_request_run:
  "execRequest refusing_server (baseOptions (fst plain_request))
      (asyncOptionsSetterMethod (fst plain_request))
      (Some (schemas_of (fst plain_request))) (snd plain_request)
   = (Inl (OtherError (JStr ''ECONNREFUSED'')),
      snd (execRequest refusing_server (baseOptions (fst plain_request))
             (asyncOptionsSetterMethod (fst plain_request))
             (Some (schemas_of (fst plain_request))) (snd plain_request)))"
  by (simp add: plain_request_def chain_defs engine_defs refusing_server_def)

text \<open>
  On concrete builders: a handler that swallows the error makes \<open>exec\<close> resolve to its
  value; a transport error passes through; with the default handler and values that
  serialise, \<open>exec\<close> raises the error of the engine and one diagnostic is written.
\<close>

lemma exec_dispatch_examples:
  "fst (exec id_server fallback_request) = Inr (JStr ''fallback'')
   \<and> fst (exec refusing_server plain_request) = Inl (OtherError (JStr ''ECONNREFUSED''))
   \<and> fst (exec id_server invalid_request)
       = Inl (RequestValidationError (ZodError [JStr ''name: Invalid type'']) 1
                (JObj [(''name'', JNum 5)]))
   \<and> map d_url (console (out (snd (exec id_server invalid_request)))) = [JStr ''http://h'']"
proof -
  have H: "requestValidationErrorHandler (fst fallback_request) = fallback_handler"
    by (simp add: fallback_request_def handleRequestValidationError_def split: prod.splits)
  have A: "fst (exec id_server (fst fallback_request, snd fallback_request)) = Inr (JStr ''fallback'')"
    using exec_dispatch[OF invalid_request_run, THEN conjunct1, rule_format, OF refl]
    by (simp add: H fallback_handler_def)
  have B: "fst (exec refusing_server (fst plain_request, snd plain_request))
             = Inl (OtherError (JStr ''ECONNREFUSED''))"
    using exec_dispatch[OF plain_request_run, THEN conjunct2, THEN conjunct2, THEN conjunct1,
            rule_format, OF refl]
    by simp
  have C: "fst (exec id_server invalid_request)
             = Inl (RequestValidationError (ZodError [JStr ''name: Invalid type'']) 1
                      (JObj [(''name'', JNum 5)]))"
    "map d_url (console (out (snd (exec id_server invalid_request)))) = [JStr ''http://h'']"
    by (simp_all add: invalid_request_def chain_defs exec_def engine_defs schema_defs
          handler_defs)
  from A B C show ?thesis by simp
qed

text \<open>
  C2. The claim has the default handler log a diagnostic and raise the error it was
  given, for both kinds of validation error. The code does not do so at a body that its
  schema rejects and that holds a BigInt, \<open>{ age: 1n }\<close> against \<open>{ age: number }\<close>: the
  engine raises the RequestValidationError, \<open>exec\<close> hands it to the default handler of
  the new builder, \<open>JSON.stringify\<close> of the data throws while the text of the diagnostic
  is built, nothing is written to the console, and \<open>exec\<close> raises the TypeError in place
  of the RequestValidationError.
\<close>

theorem default_handler_loses_error:
  "fst (execRequest id_server (baseOptions (fst bigint_request))
          (asyncOptionsSetterMethod (fst bigint_request))
          (Some (schemas_of (fst bigint_request))) (snd bigint_request))
     = Inl (RequestValidationError (ZodError [JStr ''age: Invalid type'']) 1
              (JObj [(''age'', JBigInt 1)]))
   \<and> requestValidationErrorHandler (fst bigint_request) = defaultRequestValidationHandler
   \<and> fst (exec id_server bigint_request) = Inl (OtherError (JStr ''TypeError''))
   \<and> console (out (snd (exec id_server bigint_request))) = []
   \<and> sent (calls (snd (exec id_server bigint_request))) = []"
proof -
  have r: "fst (execRequest id_server (baseOptions (fst bigint_request))
          (asyncOptionsSetterMethod (fst bigint_request))
          (Some (schemas_of (fst bigint_request))) (snd bigint_request))
     = Inl (RequestValidationError (ZodError [JStr ''age: Invalid type'']) 1
              (JObj [(''age'', JBigInt 1)]))"
    by (simp add: bigint_request_def chain_defs engine_defs schema_defs)
  have h: "requestValidationErrorHandler (fst bigint_request) = defaultRequestValidationHandler"
    by (simp add: bigint_request_def chain_defs)
  have e: "fst (exec id_server bigint_request) = Inl (OtherError (JStr ''TypeError''))"
    "console (out (snd (exec id_server bigint_request))) = []"
    "sent (calls (snd (exec id_server bigint_request))) = []"
    by (simp_all add: bigint_request_def chain_defs exec_def engine_defs schema_defs
          handler_defs)
  from r h e show ?thesis by simp
qed

text \<open>
  C5. When the option setter has resolved: a rejected query raises a
  RequestValidationError with the query schema's error (its issues), the reference to
  the per-execution option object and the rejected params; the object then holds the
  merged options. A rejected body raises one with the body schema's error and the
  rejected data; the object then holds the merged options with the validated params.
  Neither calls axios. A rejected response raises a ResponseValidationError with the
  response schema's error and the raw response data; the object holds the options axios
  was given. In the second end-to-end example \<open>exec\<close> raises the
  RequestValidationError whose request is \<open>{ age: 'x' }\<close> and axios is not called.
\<close>

theorem validation_error_metadata:
  assumes S: "resolveAsyncOptions m w = (Inr async, w1)"
  shows "(\<forall>z. verdict (schema_of ss query_s) (get_prop (heap w base ++ async) ''params'') = Inl z \<longrightarrow>
            fst (execRequest axios base m ss w)
              = Inl (RequestValidationError z (nxt w) (get_prop (heap w base ++ async) ''params''))
            \<and> heap (snd (execRequest axios base m ss w)) (nxt w) = heap w base ++ async
            \<and> sent (new_calls w (snd (execRequest axios base m ss w))) = [])
       \<and> (\<forall>p' z. verdict (schema_of ss query_s) (get_prop (heap w base ++ async) ''params'') = Inr p' \<longrightarrow>
            verdict (schema_of ss body_s) (get_prop (heap w base ++ async) ''data'') = Inl z \<longrightarrow>
            fst (execRequest axios base m ss w)
              = Inl (RequestValidationError z (nxt w) (get_prop (heap w base ++ async) ''data''))
            \<and> heap (snd (execRequest axios base m ss w)) (nxt w)
                = (heap w base ++ async)(''params'' \<mapsto> p')
            \<and> sent (new_calls w (snd (execRequest axios base m ss w))) = [])
       \<and> (\<forall>p' d' resp o' z.
            verdict (schema_of ss query_s) (get_prop (heap w base ++ async) ''params'') = Inr p' \<longrightarrow>
            verdict (schema_of ss body_s) (get_prop (heap w base ++ async) ''data'') = Inr d' \<longrightarrow>
            axios ((heap w base ++ async)(''params'' \<mapsto> p', ''data'' \<mapsto> d')) (out w1) = (Inr resp, o') \<longrightarrow>
            verdict (schema_of ss response_s) (data resp) = Inl z \<longrightarrow>
            fst (execRequest axios base m ss w)
              = Inl (ResponseValidationError z (nxt w) (data resp))
            \<and> heap (snd (execRequest axios base m ss w)) (nxt w)
                = (heap w base ++ async)(''params'' \<mapsto> p', ''data'' \<mapsto> d'))
       \<and> fst (exec id_server age_request)
           = Inl (RequestValidationError (ZodError [JStr ''age: Invalid type'']) 1
                    (JObj [(''age'', JStr ''x'')]))
       \<and> sent (calls (snd (exec id_server age_request))) = []"
proof -
  from resolve_frame[OF S]
  have C: "calls w1 = calls w @ (case m of None \<Rightarrow> [] | Some f \<Rightarrow> [SetterCalled])"
    by simp
  have a: "\<forall>z. verdict (schema_of ss query_s) (get_prop (heap w base ++ async) ''params'') = Inl z \<longrightarrow>
            fst (execRequest axios base m ss w)
              = Inl (RequestValidationError z (nxt w) (get_prop (heap w base ++ async) ''params''))
            \<and> heap (snd (execRequest axios base m ss w)) (nxt w) = heap w base ++ async
            \<and> sent (new_calls w (snd (execRequest axios base m ss w))) = []"
  proof (intro allI impI)
    fix z
    assume V: "verdict (schema_of ss query_s) (get_prop (heap w base ++ async) ''params'') = Inl z"
    show "fst (execRequest axios base m ss w)
              = Inl (RequestValidationError z (nxt w) (get_prop (heap w base ++ async) ''params''))
            \<and> heap (snd (execRequest axios base m ss w)) (nxt w) = heap w base ++ async
            \<and> sent (new_calls w (snd (execRequest axios base m ss w))) = []"
      by (simp add: exec_query_fails[OF S V] new_calls_def C split: option.splits)
  qed
  have b: "\<forall>p' z. verdict (schema_of ss query_s) (get_prop (heap w base ++ async) ''params'') = Inr p' \<longrightarrow>
            verdict (schema_of ss body_s) (get_prop (heap w base ++ async) ''data'') = Inl z \<longrightarrow>
            fst (execRequest axios base m ss w)
              = Inl (RequestValidationError z (nxt w) (get_prop (heap w base ++ async) ''data''))
            \<and> heap (snd (execRequest axios base m ss w)) (nxt w)
                = (heap w base ++ async)(''params'' \<mapsto> p')
            \<and> sent (new_calls w (snd (execRequest axios base m ss w))) = []"
  proof (intro allI impI)
    fix p' z
    assume Q: "verdict (schema_of ss query_s) (get_prop (heap w base ++ async) ''params'') = Inr p'"
      and B: "verdict (schema_of ss body_s) (get_prop (heap w base ++ async) ''data'') = Inl z"
    show "fst (execRequest axios base m ss w)
              = Inl (RequestValidationError z (nxt w) (get_prop (heap w base ++ async) ''data''))
            \<and> heap (snd (execRequest axios base m ss w)) (nxt w)
                = (heap w base ++ async)(''params'' \<mapsto> p')
            \<and> sent (new_calls w (snd (execRequest axios base m ss w))) = []"
      by (simp add: exec_body_fails[OF S Q B] new_calls_def C split: option.splits)
  qed
  have c: "\<forall>p' d' resp o' z.
            verdict (schema_of ss query_s) (get_prop (heap w base ++ async) ''params'') = Inr p' \<longrightarrow>
            verdict (schema_of ss body_s) (get_prop (heap w base ++ async) ''data'') = Inr d' \<longrightarrow>
            axios ((heap w base ++ async)(''params'' \<mapsto> p', ''data'' \<mapsto> d')) (out w1) = (Inr resp, o') \<longrightarrow>
            verdict (schema_of ss response_s) (data resp) = Inl z \<longrightarrow>
            fst (execRequest axios base m ss w)
              = Inl (ResponseValidationError z (nxt w) (data resp))
            \<and> heap (snd (execRequest axios base m ss w)) (nxt w)
                = (heap w base ++ async)(''params'' \<mapsto> p', ''data'' \<mapsto> d')"
  proof (intro allI impI)
    fix p' d' resp o' z
    assume Q: "verdict (schema_of ss query_s) (get_prop (heap w base ++ async) ''params'') = Inr p'"
      and B: "verdict (schema_of ss body_s) (get_prop (heap w base ++ async) ''data'') = Inr d'"
      and A: "axios ((heap w base ++ async)(''params'' \<mapsto> p', ''data'' \<mapsto> d')) (out w1) = (Inr resp, o')"
      and R: "verdict (schema_of ss response_s) (data resp) = Inl z"
    show "fst (execRequest axios base m ss w)
              = Inl (ResponseValidationError z (nxt w) (data resp))
            \<and> heap (snd (execRequest axios base m ss w)) (nxt w)
                = (heap w base ++ async)(''params'' \<mapsto> p', ''data'' \<mapsto> d')"
      by (simp add: exec_sent[where axios=axios, OF S Q B A] R)
  qed
  have d: "fst (exec id_server age_request)
           = Inl (RequestValidationError (ZodError [JStr ''age: Invalid type'']) 1
                    (JObj [(''age'', JStr ''x'')]))"
    by (simp add: age_request_def chain_defs exec_def engine_defs schema_defs handler_defs)
  have e: "sent (calls (snd (exec id_server age_request))) = []"
    by (simp add: age_request_def chain_defs exec_def engine_defs schema_defs handler_defs)
  from a b c d e show ?thesis by blast
qed

theorem validation_error_metadata_witness:
  "fst (execRequest id_server (baseOptions (fst mismatch_request)) None
          (Some (schemas_of (fst mismatch_request))) (snd mismatch_request))
     = Inl (ResponseValidationError (ZodError [JStr ''name: Required'']) 1
              (JObj [(''id'', JNum 1), (''etag'', JStr ''x'')]))
   \<and> heap (snd (execRequest id_server (baseOptions (fst mismatch_request)) None
          (Some (schemas_of (fst mismatch_request))) (snd mismatch_request))) 1 ''url''
       = Some (JStr ''http://h'')"
proof -
  let ?b = "fst mismatch_request" and ?w = "snd mismatch_request"
  have S: "resolveAsyncOptions None ?w = (Inr Map.empty, ?w)"
    by (simp add: resolveAsyncOptions_def)
  have n: "nxt ?w = 1" and h: "heap ?w (baseOptions ?b) = [''url'' \<mapsto> JStr ''http://h'']"
    by (simp_all add: mismatch_request_def chain_defs)
  have Q: "verdict (schema_of (Some (schemas_of ?b)) query_s)
             (get_prop (heap ?w (baseOptions ?b) ++ Map.empty) ''params'') = Inr JUndefined"
    by (simp add: mismatch_request_def chain_defs verdict_def schema_of_def schemas_of_def)
  have B: "verdict (schema_of (Some (schemas_of ?b)) body_s)
             (get_prop (heap ?w (baseOptions ?b) ++ Map.empty) ''data'') = Inr JUndefined"
    by (simp add: mismatch_request_def chain_defs verdict_def schema_of_def schemas_of_def)
  have A: "id_server ((heap ?w (baseOptions ?b) ++ Map.empty)
             (''params'' \<mapsto> JUndefined, ''data'' \<mapsto> JUndefined)) (out ?w)
           = (Inr \<lparr>data = JObj [(''id'', JNum 1), (''etag'', JStr ''x'')], status = 200\<rparr>,
              (out ?w)\<lparr>remote := Suc (remote (out ?w))\<rparr>)"
    by (simp add: id_server_def)
  have R: "verdict (schema_of (Some (schemas_of ?b)) response_s)
             (data \<lparr>data = JObj [(''id'', JNum 1), (''etag'', JStr ''x'')], status = 200\<rparr>)
           = Inl (ZodError [JStr ''name: Required''])"
    by (simp add: mismatch_request_def chain_defs verdict_def schema_of_def schemas_of_def
          schema_defs)
  from validation_error_metadata[where axios=id_server and base="baseOptions ?b"
         and ss="Some (schemas_of ?b)", OF S, THEN conjunct2, THEN conjunct2, THEN conjunct1,
         rule_format, OF Q B A R]
  show ?thesis by (simp add: n h)
qed

text \<open>
  C10. When the option setter has resolved and the query schema accepts the params, a
  rejection of the body raises a RequestValidationError whose option object already
  holds the query schema's output as \<open>params\<close>. When the query schema itself rejects the
  params, the option object of the error still holds the params as merged, untouched.
\<close>

theorem snapshot_params:
  assumes S: "resolveAsyncOptions m w = (Inr async, w1)"
    and q: "schema_of ss query_s = Some q"
  shows "(\<forall>p' z. q (get_prop (heap w base ++ async) ''params'') = Inr p' \<longrightarrow>
            verdict (schema_of ss body_s) (get_prop (heap w base ++ async) ''data'') = Inl z \<longrightarrow>
            fst (execRequest axios base m ss w)
              = Inl (RequestValidationError z (nxt w) (get_prop (heap w base ++ async) ''data''))
            \<and> heap (snd (execRequest axios base m ss w)) (nxt w) ''params'' = Some p')
       \<and> (\<forall>z. q (get_prop (heap w base ++ async) ''params'') = Inl z \<longrightarrow>
            fst (execRequest axios base m ss w)
              = Inl (RequestValidationError z (nxt w) (get_prop (heap w base ++ async) ''params''))
            \<and> heap (snd (execRequest axios base m ss w)) (nxt w) ''params''
                = (heap w base ++ async) ''params'')"
proof (intro conjI allI impI)
  fix p' z
  assume "q (get_prop (heap w base ++ async) ''params'') = Inr p'"
  then have Q: "verdict (schema_of ss query_s) (get_prop (heap w base ++ async) ''params'') = Inr p'"
    by (simp add: verdict_def q)
  assume B: "verdict (schema_of ss body_s) (get_prop (heap w base ++ async) ''data'') = Inl z"
  show "fst (execRequest axios base m ss w)
          = Inl (RequestValidationError z (nxt w) (get_prop (heap w base ++ async) ''data''))"
    by (simp add: exec_body_fails[OF S Q B])
  show "heap (snd (execRequest axios base m ss w)) (nxt w) ''params'' = Some p'"
    by (simp add: exec_body_fails[OF S Q B])
next
  fix z
  assume "q (get_prop (heap w base ++ async) ''params'') = Inl z"
  then have Q: "verdict (schema_of ss query_s) (get_prop (heap w base ++ async) ''params'') = Inl z"
    by (simp add: verdict_def q)
  show "fst (execRequest axios base m ss w)
          = Inl (RequestValidationError z (nxt w) (get_prop (heap w base ++ async) ''params''))"
    by (simp add: exec_query_fails[OF S Q])
  show "heap (snd (execRequest axios base m ss w)) (nxt w) ''params''
          = (heap w base ++ async) ''params''"
    by (simp add: exec_query_fails[OF S Q])
qed

theorem snapshot_params_witness:
  "fst (execRequest id_server (baseOptions (fst half_valid_request)) None
          (Some (schemas_of (fst half_valid_request))) (snd half_valid_request))
     = Inl (RequestValidationError (ZodError [JStr ''age: Invalid type'']) 1
              (JObj [(''age'', JStr ''x'')]))
   \<and> heap (snd (execRequest id_server (baseOptions (fst half_valid_request)) None
          (Some (schemas_of (fst half_valid_request))) (snd half_valid_request))) 1 ''params''
       = Some (JObj [(''name'', JStr ''n'')])
   \<and> description half_valid_request ''params''
       = Some (JObj [(''name'', JStr ''n''), (''page'', JNum 2)])"
proof -
  let ?b = "fst half_valid_request" and ?w = "snd half_valid_request"
  have S: "resolveAsyncOptions None ?w = (Inr Map.empty, ?w)"
    by (simp add: resolveAsyncOptions_def)
  have q: "schema_of (Some (schemas_of ?b)) query_s = Some name_schema"
    by (simp add: schema_of_def schemas_of_def half_valid_request_def chain_defs)
  have n: "nxt ?w = 1" by (simp add: half_valid_request_def chain_defs)
  have p0: "get_prop (heap ?w (baseOptions ?b)) ''params''
              = JObj [(''name'', JStr ''n''), (''page'', JNum 2)]"
    and d0: "get_prop (heap ?w (baseOptions ?b)) ''data'' = JObj [(''age'', JStr ''x'')]"
    by (simp_all add: half_valid_request_def chain_defs)
  have Q: "name_schema (get_prop (heap ?w (baseOptions ?b) ++ Map.empty) ''params'')
             = Inr (JObj [(''name'', JStr ''n'')])"
    by (simp add: p0 schema_defs)
  have B: "verdict (schema_of (Some (schemas_of ?b)) body_s)
             (get_prop (heap ?w (baseOptions ?b) ++ Map.empty) ''data'')
           = Inl (ZodError [JStr ''age: Invalid type''])"
    by (simp add: d0 verdict_def schema_of_def schemas_of_def half_valid_request_def chain_defs
          schema_defs)
  have D: "description half_valid_request ''params''
             = Some (JObj [(''name'', JStr ''n''), (''page'', JNum 2)])"
    by (simp add: description_def half_valid_request_def chain_defs)
  from snapshot_params[where axios=id_server and base="baseOptions ?b", OF S q,
         THEN conjunct1, rule_format, OF Q B]
  show ?thesis by (simp add: n d0 D)
qed

text \<open>
  C6. When the option setter has resolved, the query and body pass validation, axios
  answers and the response passes validation, axios is called once, with the merged
  options in which \<open>params\<close> and \<open>data\<close> are the outputs of validation, and \<open>exec\<close>
  resolves to the output of validating the response data. For a slot with a schema that
  output is the schema's parse output; for a slot without one it is the value itself.
\<close>

theorem normalized_flows_forward:
  assumes S: "resolveAsyncOptions (asyncOptionsSetterMethod b) w = (Inr async, w1)"
    and Q: "verdict (querySchema_v b) (get_prop (description (b, w) ++ async) ''params'') = Inr p'"
    and B: "verdict (bodySchema_v b) (get_prop (description (b, w) ++ async) ''data'') = Inr d'"
    and A: "axios ((description (b, w) ++ async)(''params'' \<mapsto> p', ''data'' \<mapsto> d')) (out w1)
              = (Inr resp, o')"
    and R: "verdict (responseSchema_v b) (data resp) = Inr x"
  shows "fst (exec axios (b, w)) = Inr x
       \<and> sent (new_calls w (snd (exec axios (b, w))))
           = [(description (b, w) ++ async)(''params'' \<mapsto> p', ''data'' \<mapsto> d')]
       \<and> verdict (Some s) v = s v
       \<and> verdict None v = Inr v"
proof -
  let ?ss = "Some (schemas_of b)"
  have sch: "schema_of ?ss query_s = querySchema_v b" "schema_of ?ss body_s = bodySchema_v b"
    "schema_of ?ss response_s = responseSchema_v b"
    by (simp_all add: schema_of_def schemas_of_def)
  have d: "description (b, w) = heap w (baseOptions b)"
    by (simp add: description_def)
  from resolve_frame[OF S]
  have C: "calls w1 = calls w @ (case asyncOptionsSetterMethod b of None \<Rightarrow> [] | Some f \<Rightarrow> [SetterCalled])"
    by simp
  note run = exec_sent[where axios=axios and ss="?ss" and base="baseOptions b", OF S,
      unfolded sch, OF Q[unfolded d] B[unfolded d] A[unfolded d]]
  have E: "exec axios (b, w) = (Inr x, snd (execRequest axios (baseOptions b)
             (asyncOptionsSetterMethod b) ?ss w))"
    using exec_from_run[where axios=axios and b=b and w=w, OF prod.collapse[symmetric]]
    by (simp add: run R)
  have "sent (new_calls w (snd (execRequest axios (baseOptions b) (asyncOptionsSetterMethod b) ?ss w)))
          = [(heap w (baseOptions b) ++ async)(''params'' \<mapsto> p', ''data'' \<mapsto> d')]"
    by (simp add: run R new_calls_def C split: option.splits)
  with E show ?thesis by (simp add: d verdict_def)
qed

theorem normalized_flows_forward_witness:
  "fst (exec id_server full_request) = Inr (JObj [(''id'', JNum 1)])
   \<and> sent_prop ''params'' (new_calls (snd full_request) (snd (exec id_server full_request)))
       = [Some (JObj [(''name'', JStr ''n'')])]
   \<and> sent_prop ''data'' (new_calls (snd full_request) (snd (exec id_server full_request)))
       = [Some (JObj [(''age'', JNum 3)])]
   \<and> description full_request ''params''
       = Some (JObj [(''name'', JStr ''n''), (''page'', JNum 2)])
   \<and> description full_request ''data''
       = Some (JObj [(''age'', JNum 3), (''note'', JStr ''y'')])"
proof -
  let ?b = "fst full_request" and ?w = "snd full_request"
  have slots: "asyncOptionsSetterMethod ?b = None" "querySchema_v ?b = Some name_schema"
    "bodySchema_v ?b = Some age_schema" "responseSchema_v ?b = Some id_schema"
    by (simp_all add: full_request_def chain_defs)
  have D: "description full_request ''params'' = Some (JObj [(''name'', JStr ''n''), (''page'', JNum 2)])"
    "description full_request ''data'' = Some (JObj [(''age'', JNum 3), (''note'', JStr ''y'')])"
    by (simp_all add: description_def full_request_def chain_defs)
  have S: "resolveAsyncOptions (asyncOptionsSetterMethod ?b) ?w = (Inr Map.empty, ?w)"
    by (simp add: slots resolveAsyncOptions_def)
  have Q: "verdict (querySchema_v ?b) (get_prop (description (?b, ?w) ++ Map.empty) ''params'')
             = Inr (JObj [(''name'', JStr ''n'')])"
    by (simp add: slots verdict_def get_prop_def D schema_defs)
  have B: "verdict (bodySchema_v ?b) (get_prop (description (?b, ?w) ++ Map.empty) ''data'')
             = Inr (JObj [(''age'', JNum 3)])"
    by (simp add: slots verdict_def get_prop_def D schema_defs)
  have A: "id_server ((description (?b, ?w) ++ Map.empty)
              (''params'' \<mapsto> JObj [(''name'', JStr ''n'')], ''data'' \<mapsto> JObj [(''age'', JNum 3)]))
              (out ?w)
           = (Inr \<lparr>data = JObj [(''id'', JNum 1), (''etag'', JStr ''x'')], status = 200\<rparr>,
              (out ?w)\<lparr>remote := Suc (remote (out ?w))\<rparr>)"
    by (simp add: id_server_def)
  have R: "verdict (responseSchema_v ?b)
             (data \<lparr>data = JObj [(''id'', JNum 1), (''etag'', JStr ''x'')], status = 200\<rparr>)
           = Inr (JObj [(''id'', JNum 1)])"
    by (simp add: slots verdict_def schema_defs)
  from normalized_flows_forward[where axios=id_server, OF S Q B A R] D
  show ?thesis by (simp add: sent_prop_def)
qed

text \<open>
  C4, as stated, fails: static options and the option setter both define \<open>params\<close>, the
  setter's value is \<open>{ name: 'n', page: 2 }\<close>, and axios is given \<open>{ name: 'n' }\<close>, the
  query schema's output for it.
\<close>

theorem async_value_counterexample:
  "description paged_request ''params'' = Some (JObj [(''name'', JStr ''s'')])
   \<and> token_setter (out (snd paged_request)) = (Inr token_options, out (snd paged_request))
   \<and> token_options ''params'' = Some (JObj [(''name'', JStr ''n''), (''page'', JNum 2)])
   \<and> sent_prop ''params'' (calls (snd (exec id_server paged_request)))
       = [Some (JObj [(''name'', JStr ''n'')])]
   \<and> sent_prop ''params'' (calls (snd (exec id_server paged_request)))
       \<noteq> [token_options ''params'']"
proof -
  have sp: "sent_prop ''params'' (calls (snd (exec id_server paged_request)))
       = [Some (JObj [(''name'', JStr ''n'')])]"
    by (simp add: sent_prop_def paged_request_def chain_defs exec_def engine_defs schema_defs
          token_setter_def token_options_def id_server_def)
  have "description paged_request ''params'' = Some (JObj [(''name'', JStr ''s'')])"
    by (simp add: description_def paged_request_def chain_defs)
  moreover have "token_setter (out (snd paged_request)) = (Inr token_options, out (snd paged_request))"
    by (simp add: token_setter_def)
  moreover have "token_options ''params'' = Some (JObj [(''name'', JStr ''n''), (''page'', JNum 2)])"
    by (simp add: token_options_def)
  ultimately show ?thesis using sp by simp
qed

text \<open>
  C4, amended. When the option setter has resolved and the query and body pass
  validation, axios is given the merge of the Request Description with the setter's
  result, in which \<open>params\<close> and \<open>data\<close> are replaced by the outputs of validation. In the
  merge every key of the setter's result has the setter's value, and it is the merged
  params and data that are validated. So for every key of the setter's result other
  than \<open>params\<close> and \<open>data\<close> axios receives the setter's value; for \<open>params\<close> and \<open>data\<close> it
  receives the output of validating the setter's value.
\<close>

theorem async_precedence:
  assumes S: "resolveAsyncOptions m w = (Inr async, w1)"
    and Q: "verdict (schema_of ss query_s) (get_prop (heap w base ++ async) ''params'') = Inr p'"
    and B: "verdict (schema_of ss body_s) (get_prop (heap w base ++ async) ''data'') = Inr d'"
  shows "sent (new_calls w (snd (execRequest axios base m ss w)))
           = [(heap w base ++ async)(''params'' \<mapsto> p', ''data'' \<mapsto> d')]
       \<and> (\<forall>k v. async k = Some v \<longrightarrow> (heap w base ++ async) k = Some v)
       \<and> (\<forall>k v. async k = Some v \<longrightarrow> k \<noteq> ''params'' \<longrightarrow> k \<noteq> ''data'' \<longrightarrow>
             ((heap w base ++ async)(''params'' \<mapsto> p', ''data'' \<mapsto> d')) k = Some v)
       \<and> (\<forall>v. async ''params'' = Some v \<longrightarrow> verdict (schema_of ss query_s) v = Inr p')
       \<and> (\<forall>v. async ''data'' = Some v \<longrightarrow> verdict (schema_of ss body_s) v = Inr d')
       \<and> parsed_at Query (new_calls w (snd (execRequest axios base m ss w)))
           = (case schema_of ss query_s of None \<Rightarrow> []
              | Some q \<Rightarrow> [get_prop (heap w base ++ async) ''params''])
       \<and> parsed_at Body (new_calls w (snd (execRequest axios base m ss w)))
           = (case schema_of ss body_s of None \<Rightarrow> []
              | Some q \<Rightarrow> [get_prop (heap w base ++ async) ''data''])"
proof -
  from resolve_frame[OF S]
  have C: "calls w1 = calls w @ (case m of None \<Rightarrow> [] | Some f \<Rightarrow> [SetterCalled])"
    by simp
  obtain res o' where
    A: "axios ((heap w base ++ async)(''params'' \<mapsto> p', ''data'' \<mapsto> d')) (out w1) = (res, o')"
    by (cases "axios ((heap w base ++ async)(''params'' \<mapsto> p', ''data'' \<mapsto> d')) (out w1)")
  note run = exec_sent[where axios=axios, OF S Q B A]
  have s: "sent (new_calls w (snd (execRequest axios base m ss w)))
           = [(heap w base ++ async)(''params'' \<mapsto> p', ''data'' \<mapsto> d')]"
    by (simp add: run new_calls_def C split: option.splits sum.splits)
  have pq: "parsed_at Query (new_calls w (snd (execRequest axios base m ss w)))
           = (case schema_of ss query_s of None \<Rightarrow> []
              | Some q \<Rightarrow> [get_prop (heap w base ++ async) ''params''])"
    by (simp add: run new_calls_def C split: option.splits sum.splits)
  have pb: "parsed_at Body (new_calls w (snd (execRequest axios base m ss w)))
           = (case schema_of ss body_s of None \<Rightarrow> []
              | Some q \<Rightarrow> [get_prop (heap w base ++ async) ''data''])"
    by (simp add: run new_calls_def C split: option.splits sum.splits)
  have m1: "\<forall>k v. async k = Some v \<longrightarrow> (heap w base ++ async) k = Some v"
    by (simp add: map_add_Some_iff)
  have m2: "\<forall>k v. async k = Some v \<longrightarrow> k \<noteq> ''params'' \<longrightarrow> k \<noteq> ''data'' \<longrightarrow>
             ((heap w base ++ async)(''params'' \<mapsto> p', ''data'' \<mapsto> d')) k = Some v"
    by (simp add: map_add_Some_iff)
  have vq: "\<forall>v. async ''params'' = Some v \<longrightarrow> verdict (schema_of ss query_s) v = Inr p'"
    using Q by (auto simp: get_prop_def)
  have vb: "\<forall>v. async ''data'' = Some v \<longrightarrow> verdict (schema_of ss body_s) v = Inr d'"
    using B by (auto simp: get_prop_def)
  from s m1 m2 vq vb pq pb show ?thesis by blast
qed

theorem async_precedence_witness:
  "sent_prop ''headers'' (new_calls (snd paged_request)
      (snd (execRequest id_server (baseOptions (fst paged_request)) (Some token_setter)
              (Some (schemas_of (fst paged_request))) (snd paged_request))))
     = [Some (JObj [(''Authorization'', JStr ''Bearer t'')])]
   \<and> description paged_request ''headers'' = Some (JObj [(''Accept'', JStr ''text/plain'')])
   \<and> name_schema (JObj [(''name'', JStr ''n''), (''page'', JNum 2)])
       = Inr (JObj [(''name'', JStr ''n'')])"
proof -
  let ?b = "fst paged_request" and ?w = "snd paged_request"
  have S: "resolveAsyncOptions (Some token_setter) ?w
             = (Inr token_options, ?w\<lparr>calls := calls ?w @ [SetterCalled], out := out ?w\<rparr>)"
    by (simp add: resolveAsyncOptions_def token_setter_def)
  have h: "heap ?w (baseOptions ?b)
             = [''url'' \<mapsto> JStr ''http://h'', ''params'' \<mapsto> JObj [(''name'', JStr ''s'')],
                ''headers'' \<mapsto> JObj [(''Accept'', JStr ''text/plain'')]]"
    by (simp add: paged_request_def chain_defs)
  have Q: "verdict (schema_of (Some (schemas_of ?b)) query_s)
             (get_prop (heap ?w (baseOptions ?b) ++ token_options) ''params'')
           = Inr (JObj [(''name'', JStr ''n'')])"
    by (simp add: h get_prop_def token_options_def verdict_def schema_of_def schemas_of_def
          paged_request_def chain_defs schema_defs)
  have B: "verdict (schema_of (Some (schemas_of ?b)) body_s)
             (get_prop (heap ?w (baseOptions ?b) ++ token_options) ''data'')
           = Inr JUndefined"
    by (simp add: h get_prop_def token_options_def verdict_def schema_of_def schemas_of_def
          paged_request_def chain_defs)
  have D: "description paged_request ''headers'' = Some (JObj [(''Accept'', JStr ''text/plain'')])"
    by (simp add: description_def paged_request_def chain_defs)
  have N: "name_schema (JObj [(''name'', JStr ''n''), (''page'', JNum 2)])
       = Inr (JObj [(''name'', JStr ''n'')])"
    by (simp add: schema_defs)
  from async_precedence[where axios=id_server and base="baseOptions ?b", OF S Q B, THEN conjunct1]
  have "sent_prop ''headers'' (new_calls ?w
      (snd (execRequest id_server (baseOptions ?b) (Some token_setter)
              (Some (schemas_of ?b)) ?w)))
     = [Some (JObj [(''Authorization'', JStr ''Bearer t'')])]"
    by (simp add: sent_prop_def h token_options_def)
  with D N show ?thesis by simp
qed

lemma exec_world:
  "heap (snd (exec axios (b, w)))
     = heap (snd (execRequest axios (baseOptions b) (asyncOptionsSetterMethod b)
                    (Some (schemas_of b)) w))
   \<and> nxt (snd (exec axios (b, w)))
     = nxt (snd (execRequest axios (baseOptions b) (asyncOptionsSetterMethod b)
                    (Some (schemas_of b)) w))
   \<and> calls (snd (exec axios (b, w)))
     = calls (snd (execRequest axios (baseOptions b) (asyncOptionsSetterMethod b)
                    (Some (schemas_of b)) w))"
  using exec_from_run[where axios=axios and b=b and w=w, OF prod.collapse[symmetric]]
  by (simp add: callHandler_def split: sum.splits err.splits prod.splits)

lemma exec_shape:
  "nxt w \<le> nxt (snd (exec axios (b, w)))
   \<and> (\<forall>a. a \<noteq> nxt w \<longrightarrow> heap (snd (exec axios (b, w))) a = heap w a)
   \<and> calls (snd (exec axios (b, w))) = calls w @ new_calls w (snd (exec axios (b, w)))
   \<and> setter_calls (new_calls w (snd (exec axios (b, w))))
       = (case asyncOptionsSetterMethod b of None \<Rightarrow> 0 | Some f \<Rightarrow> 1)"
  using execRequest_shape[where axios=axios and base="baseOptions b"
      and m="asyncOptionsSetterMethod b" and ss="Some (schemas_of b)" and w=w,
      OF prod.collapse[symmetric]]
    exec_world[of axios b w]
  by (simp add: new_calls_def)

lemma run_parsed:
  assumes S: "resolveAsyncOptions m w = (Inr async, w1)"
  shows "parsed_at Query (new_calls w (snd (execRequest axios base m ss w)))
           = (case schema_of ss query_s of None \<Rightarrow> []
              | Some q \<Rightarrow> [get_prop (heap w base ++ async) ''params''])"
proof -
  from resolve_frame[OF S]
  have C: "calls w1 = calls w @ (case m of None \<Rightarrow> [] | Some f \<Rightarrow> [SetterCalled])"
    by simp
  show ?thesis
  proof (cases "verdict (schema_of ss query_s) (get_prop (heap w base ++ async) ''params'')")
    case (Inl z)
    then obtain q where "schema_of ss query_s = Some q"
      by (cases "schema_of ss query_s") (simp_all add: verdict_def)
    then show ?thesis
      by (simp add: exec_query_fails[OF S Inl] new_calls_def C split: option.splits)
  next
    case Q: (Inr p')
    show ?thesis
    proof (cases "verdict (schema_of ss body_s) (get_prop (heap w base ++ async) ''data'')")
      case (Inl z)
      show ?thesis
        by (simp add: exec_body_fails[OF S Q Inl] new_calls_def C split: option.splits)
    next
      case B: (Inr d')
      obtain res o' where
        A: "axios ((heap w base ++ async)(''params'' \<mapsto> p', ''data'' \<mapsto> d')) (out w1) = (res, o')"
        by (cases "axios ((heap w base ++ async)(''params'' \<mapsto> p', ''data'' \<mapsto> d')) (out w1)")
      show ?thesis
        by (simp add: exec_sent[where axios=axios, OF S Q B A] new_calls_def C
              split: option.splits sum.splits)
    qed
  qed
qed

lemma allocated_kept:
  "allocated (validatedRequestMaker host w)"
  "allocated st \<Longrightarrow> allocated (options opts st)"
  "allocated st \<Longrightarrow> allocated (concatPath p st)"
  "allocated st \<Longrightarrow> allocated (httpMethod m st)"
  "allocated st \<Longrightarrow> allocated (query v st)"
  "allocated st \<Longrightarrow> allocated (body v st)"
  "allocated st \<Longrightarrow> allocated (querySchema s st)"
  "allocated st \<Longrightarrow> allocated (bodySchema s st)"
  "allocated st \<Longrightarrow> allocated (responseSchema s st)"
  "allocated st \<Longrightarrow> allocated (asyncOptionsSetter f st)"
  "allocated st \<Longrightarrow> allocated (handleRequestValidationError h st)"
  "allocated st \<Longrightarrow> allocated (handleResponseValidationError h st)"
  by (cases st; simp add: allocated_def chain_defs)+

lemma allocated_exec:
  "allocated (b, w) \<Longrightarrow> allocated (b, snd (exec axios (b, w)))"
  using exec_shape[of w axios b] by (simp add: allocated_def)

text \<open>
  C8. An execution leaves the object the builder refers to as it was: the replacement
  of \<open>params\<close> and \<open>data\<close> is made in an object allocated by the execution. So, for a
  builder whose object has been allocated, the Request Description is the same after one
  \<open>exec\<close> and after a second one, whether they resolve or raise. Each \<open>exec\<close> calls the
  option setter once when there is one, and a second \<open>exec\<close> whose setter call resolves
  submits to the query schema the params merged from the Request Description and the
  result of that call.
\<close>

theorem exec_leaves_description:
  assumes wf: "allocated (b, w)"
  shows "description (b, snd (exec axios (b, w))) = description (b, w)
       \<and> description (b, snd (exec axios (b, snd (exec axios (b, w))))) = description (b, w)
       \<and> setter_calls (new_calls w (snd (exec axios (b, w))))
           = (case asyncOptionsSetterMethod b of None \<Rightarrow> 0 | Some f \<Rightarrow> 1)
       \<and> setter_calls (new_calls (snd (exec axios (b, w)))
                          (snd (exec axios (b, snd (exec axios (b, w))))))
           = (case asyncOptionsSetterMethod b of None \<Rightarrow> 0 | Some f \<Rightarrow> 1)
       \<and> (\<forall>async wa q.
            resolveAsyncOptions (asyncOptionsSetterMethod b) (snd (exec axios (b, w)))
              = (Inr async, wa) \<longrightarrow>
            querySchema_v b = Some q \<longrightarrow>
            parsed_at Query (new_calls (snd (exec axios (b, w)))
                               (snd (exec axios (b, snd (exec axios (b, w))))))
              = [get_prop (description (b, w) ++ async) ''params''])"
proof -
  let ?w1 = "snd (exec axios (b, w))"
  let ?w2 = "snd (exec axios (b, ?w1))"
  note s1 = exec_shape[of w axios b]
  note s2 = exec_shape[of ?w1 axios b]
  from wf s1 have h1: "heap ?w1 (baseOptions b) = heap w (baseOptions b)"
    by (simp add: allocated_def)
  from wf s1 have wf1: "baseOptions b < nxt ?w1"
    by (simp add: allocated_def)
  with s2 have h2: "heap ?w2 (baseOptions b) = heap ?w1 (baseOptions b)" by simp
  have d1: "description (b, ?w1) = description (b, w)"
    and d2: "description (b, ?w2) = description (b, w)"
    using h1 h2 by (simp_all add: description_def)
  have p: "parsed_at Query (new_calls ?w1 ?w2) = [get_prop (description (b, w) ++ async) ''params'']"
    if S: "resolveAsyncOptions (asyncOptionsSetterMethod b) ?w1 = (Inr async, wa)"
      and q: "querySchema_v b = Some q" for async wa q
  proof -
    have "new_calls ?w1 ?w2
            = new_calls ?w1 (snd (execRequest axios (baseOptions b) (asyncOptionsSetterMethod b)
                                    (Some (schemas_of b)) ?w1))"
      using exec_world[of axios b ?w1] by (simp add: new_calls_def)
    with run_parsed[where axios=axios and base="baseOptions b" and ss="Some (schemas_of b)", OF S]
    show ?thesis
      by (simp add: q schema_of_def schemas_of_def description_def h1)
  qed
  from d1 d2 s1 s2 p show ?thesis by blast
qed

theorem exec_leaves_description_witness:
  "description (fst counted_request,
                snd (exec id_server (fst counted_request, snd (exec id_server counted_request))))
     = description counted_request
   \<and> setter_calls (calls (snd (exec id_server
                                  (fst counted_request, snd (exec id_server counted_request))))) = 2
   \<and> parsed_at Query (calls (snd (exec id_server
                                  (fst counted_request, snd (exec id_server counted_request)))))
       = [JObj [(''name'', JStr ''0'')], JObj [(''name'', JStr ''2'')]]"
proof -
  have wf: "allocated (fst counted_request, snd counted_request)"
    by (simp add: counted_request_def allocated_kept)
  have ev: "setter_calls (calls (snd (exec id_server
                                  (fst counted_request, snd (exec id_server counted_request))))) = 2"
    "parsed_at Query (calls (snd (exec id_server
                                  (fst counted_request, snd (exec id_server counted_request)))))
       = [JObj [(''name'', JStr ''0'')], JObj [(''name'', JStr ''2'')]]"
    by (simp_all add: counted_request_def chain_defs exec_def engine_defs schema_defs
          counting_setter_def id_server_def)
  from exec_leaves_description[where axios=id_server, OF wf, THEN conjunct2, THEN conjunct1] ev
  show ?thesis by simp
qed

text \<open>
  C3, as stated, fails for \<open>options\<close>: after \<open>options({ timeout: 5 })\<close> the builder refers
  to another object than before, and the object it referred to has no \<open>timeout\<close>; the
  new one has.
\<close>

theorem options_copies_counterexample:
  "baseOptions (fst (options [''timeout'' \<mapsto> JNum 5] (validatedRequestMaker ''http://h'' w0)))
     \<noteq> baseOptions (fst (validatedRequestMaker ''http://h'' w0))
   \<and> heap (snd (options [''timeout'' \<mapsto> JNum 5] (validatedRequestMaker ''http://h'' w0)))
        (baseOptions (fst (validatedRequestMaker ''http://h'' w0))) ''timeout'' = None
   \<and> description (options [''timeout'' \<mapsto> JNum 5] (validatedRequestMaker ''http://h'' w0))
        ''timeout'' = Some (JNum 5)"
  by (simp add: description_def chain_defs)

text \<open>
  C3, amended. \<open>concatPath\<close>, \<open>method\<close>, \<open>query\<close> and \<open>body\<close> write one key of the object
  the builder refers to, in place, and the builder goes on referring to it. \<open>options\<close>
  allocates a new object, the merge of the current one with the options given, leaves
  the current one as it is, and makes the builder refer to the new one. Either way a
  later call starts from the Request Description the earlier calls left: a later
  \<open>method\<close>, \<open>query\<close>, \<open>body\<close> or \<open>options\<close> overrides the keys it sets, and
  \<open>concatPath\<close> appends to the url.
\<close>

theorem chain_calls_compose:
  "baseOptions (fst (concatPath p (b, w))) = baseOptions b
   \<and> heap (snd (concatPath p (b, w)))
       = (heap w)(baseOptions b := (heap w (baseOptions b))
            (''url'' \<mapsto> JStr (js_to_string (get_prop (heap w (baseOptions b)) ''url'') @ ''/'' @ p)))
   \<and> baseOptions (fst (httpMethod m (b, w))) = baseOptions b
   \<and> heap (snd (httpMethod m (b, w)))
       = (heap w)(baseOptions b := (heap w (baseOptions b))(''method'' \<mapsto> m))
   \<and> baseOptions (fst (query v (b, w))) = baseOptions b
   \<and> heap (snd (query v (b, w)))
       = (heap w)(baseOptions b := (heap w (baseOptions b))(''params'' \<mapsto> v))
   \<and> baseOptions (fst (body v (b, w))) = baseOptions b
   \<and> heap (snd (body v (b, w)))
       = (heap w)(baseOptions b := (heap w (baseOptions b))(''data'' \<mapsto> v))
   \<and> baseOptions (fst (options opts (b, w))) = nxt w
   \<and> heap (snd (options opts (b, w))) = (heap w)(nxt w := heap w (baseOptions b) ++ opts)
   \<and> description (options opts (b, w)) = description (b, w) ++ opts
   \<and> description (options opts2 (options opts (b, w))) = description (b, w) ++ opts ++ opts2
   \<and> description (httpMethod m2 (httpMethod m (b, w))) = (description (b, w))(''method'' \<mapsto> m2)
   \<and> description (query v2 (query v (b, w))) = (description (b, w))(''params'' \<mapsto> v2)
   \<and> description (body v2 (body v (b, w))) = (description (b, w))(''data'' \<mapsto> v2)
   \<and> description (options opts (httpMethod m (b, w))) = (description (b, w))(''method'' \<mapsto> m) ++ opts
   \<and> description (httpMethod m (options opts (b, w))) = (description (b, w) ++ opts)(''method'' \<mapsto> m)
   \<and> description (concatPath p2 (concatPath p (b, w))) ''url''
       = Some (JStr (js_to_string (get_prop (description (b, w)) ''url'') @ ''/'' @ p @ ''/'' @ p2))"
  by (simp add: description_def concatPath_def httpMethod_def query_def body_def options_def
        alloc_def assign_def get_prop_def)

lemma concatPath_url:
  "description (concatPath seg st) ''url''
     = Some (JStr (js_to_string (get_prop (description st) ''url'') @ ''/'' @ seg))"
  by (cases st) (simp add: description_def concatPath_def assign_def)

lemma fold_concatPath_url:
  "description st ''url'' = Some (JStr u) \<Longrightarrow>
   description (fold concatPath segs st) ''url''
     = Some (JStr (u @ concat (map (\<lambda>s. ''/'' @ s) segs)))"
proof (induction segs arbitrary: st u)
  case Nil
  then show ?case by simp
next
  case (Cons s segs)
  from Cons.prems have "description (concatPath s st) ''url'' = Some (JStr (u @ ''/'' @ s))"
    by (simp add: concatPath_url get_prop_def)
  from Cons.IH[OF this] show ?case by simp
qed

text \<open>
  C9. The url of a new builder is the host it was made with. Each \<open>concatPath\<close> sets the
  url to the current url followed by \<open>/\<close> and the segment as given, so after any list of
  segments the url is the host followed by \<open>/\<close> and each segment in turn. In the first
  end-to-end example the url is \<open>http://h/a/b\<close>, and that is the url axios is given.
\<close>

theorem concatPath_appends:
  "description (validatedRequestMaker host w) ''url'' = Some (JStr host)
   \<and> description (concatPath seg st) ''url''
       = Some (JStr (js_to_string (get_prop (description st) ''url'') @ ''/'' @ seg))
   \<and> js_to_string (JStr u) = u
   \<and> description (fold concatPath segs (validatedRequestMaker host w)) ''url''
       = Some (JStr (host @ concat (map (\<lambda>s. ''/'' @ s) segs)))
   \<and> description (concatPath ''b'' (concatPath ''a'' (validatedRequestMaker ''http://h'' w))) ''url''
       = Some (JStr ''http://h/a/b'')
   \<and> sent_prop ''url'' (calls (snd (exec id_server
         (concatPath ''b'' (concatPath ''a'' (validatedRequestMaker ''http://h'' w0))))))
       = [Some (JStr ''http://h/a/b'')]"
proof -
  have h: "description (validatedRequestMaker host w) ''url'' = Some (JStr host)" for host
    by (simp add: description_def validatedRequestMaker_def alloc_def)
  have e: "description (concatPath ''b'' (concatPath ''a'' (validatedRequestMaker ''http://h'' w))) ''url''
       = Some (JStr ''http://h/a/b'')"
    using fold_concatPath_url[OF h[of "''http://h''"], of "[''a'', ''b'']"] by simp
  have s: "sent_prop ''url'' (calls (snd (exec id_server
         (concatPath ''b'' (concatPath ''a'' (validatedRequestMaker ''http://h'' w0))))))
       = [Some (JStr ''http://h/a/b'')]"
    by (simp add: sent_prop_def chain_defs exec_def engine_defs id_server_def)
  from h concatPath_url fold_concatPath_url[OF h] e s show ?thesis by simp
qed

end
